theory Spec2Isabelle
  imports Main
begin

section \<open>JSON values, rows and JavaScript string helpers\<close>

text \<open>
  Request bodies, table rows and response bodies are JSON objects. An object is a
  finite map from property names to values; a missing property reads as
  \<open>undefined\<close>, which is \<open>None\<close> here. Identifiers are strings, as the route
  parameter \<open>id\<close> is.
\<close>

datatype jval =
    JNull
  | JBool bool
  | JNum int
  | JStr string
  | JArr "jval list"
  | JObj "string \<Rightarrow> jval option"

type_synonym row = "string \<Rightarrow> jval option"

text \<open>JavaScript truthiness of a property read (\<open>updateData.role && ...\<close>).\<close>

fun truthy :: "jval option \<Rightarrow> bool" where
  "truthy None = False"
| "truthy (Some JNull) = False"
| "truthy (Some (JBool b)) = b"
| "truthy (Some (JNum n)) = (n \<noteq> 0)"
| "truthy (Some (JStr s)) = (s \<noteq> [])"
| "truthy (Some (JArr xs)) = True"
| "truthy (Some (JObj m)) = True"

text \<open>
  \<open>String.prototype.toUpperCase\<close>. Strings are byte strings here, in UTF-8. On a
  string of ASCII characters the result is the string with the letters \<open>a\<close> to
  \<open>z\<close> replaced by \<open>A\<close> to \<open>Z\<close>. On any other string the result follows the
  case mapping of Unicode, which also maps letters outside ASCII to ASCII letters (the
  dotless i to \<open>I\<close>, the long s to \<open>S\<close>); that mapping belongs to the platform and is
  a parameter here, the first argument.
\<close>

definition upper_char :: "char \<Rightarrow> char" where
  "upper_char c =
     (case map_of (zip ''abcdefghijklmnopqrstuvwxyz'' ''ABCDEFGHIJKLMNOPQRSTUVWXYZ'') c of
        Some u \<Rightarrow> u
      | None \<Rightarrow> c)"

definition is_ascii :: "string \<Rightarrow> bool" where
  "is_ascii s = list_all (\<lambda>c. \<not> digit7 c) s"

definition toUpperCase :: "(string \<Rightarrow> string) \<Rightarrow> string \<Rightarrow> string" where
  "toUpperCase unicode s = (if is_ascii s then map upper_char s else unicode s)"

text \<open>\<open>permission.replace(/_/g, " ")\<close> and \<open>permission.split("_")\<close>.\<close>

definition replace_underscores :: "string \<Rightarrow> string" where
  "replace_underscores s = map (\<lambda>c. if c = CHR ''_'' then CHR '' '' else c) s"

fun split_underscore :: "string \<Rightarrow> string list" where
  "split_underscore [] = [[]]"
| "split_underscore (c # cs) =
     (if c = CHR ''_'' then [] # split_underscore cs
      else (case split_underscore cs of
              [] \<Rightarrow> [[c]]
            | p # ps \<Rightarrow> (c # p) # ps))"

section \<open>The permission catalog (lib/adminPermissions.ts)\<close>

record AdminPermission =
  perm_id :: string
  perm_name :: string
  perm_description :: string
  resource :: string
  action :: string

record AdminRole =
  role_id :: string
  role_name :: string
  role_description :: string
  permissions :: "AdminPermission list"

definition VIEW_TRANSACTIONS :: string where "VIEW_TRANSACTIONS = ''view_transactions''"
definition EDIT_TRANSACTIONS :: string where "EDIT_TRANSACTIONS = ''edit_transactions''"
definition CANCEL_TRANSACTIONS :: string where "CANCEL_TRANSACTIONS = ''cancel_transactions''"
definition DELETE_TRANSACTIONS :: string where "DELETE_TRANSACTIONS = ''delete_transactions''"
definition VIEW_USERS :: string where "VIEW_USERS = ''view_users''"
definition EDIT_USERS :: string where "EDIT_USERS = ''edit_users''"
definition DEACTIVATE_USERS :: string where "DEACTIVATE_USERS = ''deactivate_users''"
definition VERIFY_USERS :: string where "VERIFY_USERS = ''verify_users''"
definition VIEW_DATA :: string where "VIEW_DATA = ''view_data''"
definition EDIT_DATA :: string where "EDIT_DATA = ''edit_data''"
definition DELETE_DATA :: string where "DELETE_DATA = ''delete_data''"
definition VIEW_AUDIT_LOGS :: string where "VIEW_AUDIT_LOGS = ''view_audit_logs''"
definition MANAGE_SETTINGS :: string where "MANAGE_SETTINGS = ''manage_settings''"
definition VIEW_ANALYTICS :: string where "VIEW_ANALYTICS = ''view_analytics''"
definition MANAGE_DISPUTES :: string where "MANAGE_DISPUTES = ''manage_disputes''"

lemmas permission_names =
  VIEW_TRANSACTIONS_def EDIT_TRANSACTIONS_def CANCEL_TRANSACTIONS_def DELETE_TRANSACTIONS_def
  VIEW_USERS_def EDIT_USERS_def DEACTIVATE_USERS_def VERIFY_USERS_def
  VIEW_DATA_def EDIT_DATA_def DELETE_DATA_def
  VIEW_AUDIT_LOGS_def MANAGE_SETTINGS_def VIEW_ANALYTICS_def MANAGE_DISPUTES_def

text \<open>\<open>Object.values(ADMIN_PERMISSIONS)\<close>: the values in the order of the literal.\<close>

definition ADMIN_PERMISSIONS_values :: "string list" where
  "ADMIN_PERMISSIONS_values =
     [VIEW_TRANSACTIONS, EDIT_TRANSACTIONS, CANCEL_TRANSACTIONS, DELETE_TRANSACTIONS,
      VIEW_USERS, EDIT_USERS, DEACTIVATE_USERS, VERIFY_USERS,
      VIEW_DATA, EDIT_DATA, DELETE_DATA,
      VIEW_AUDIT_LOGS, MANAGE_SETTINGS, VIEW_ANALYTICS, MANAGE_DISPUTES]"

text \<open>
  The object every role literal builds from a permission identifier. The literals are
  evaluated with the case mapping \<open>u\<close> of the platform.
\<close>

definition mk_permission :: "(string \<Rightarrow> string) \<Rightarrow> string \<Rightarrow> AdminPermission" where
  "mk_permission u permission =
     \<lparr> perm_id = permission,
       perm_name = toUpperCase u (replace_underscores permission),
       perm_description = ''Permission to '' @ replace_underscores permission,
       resource = (case split_underscore permission of
                     _ # r # _ \<Rightarrow> (if r = [] then ''system'' else r)
                   | _ \<Rightarrow> ''system''),
       action = (case split_underscore permission of
                   a # _ \<Rightarrow> (if a = [] then ''manage'' else a)
                 | [] \<Rightarrow> ''manage'') \<rparr>"

definition SUPER_ADMIN :: "(string \<Rightarrow> string) \<Rightarrow> AdminRole" where
  "SUPER_ADMIN u =
     \<lparr> role_id = ''super_admin'', role_name = ''Super Admin'',
       role_description = ''Full access to all admin functions'',
       permissions = map (mk_permission u) ADMIN_PERMISSIONS_values \<rparr>"

definition ADMIN :: "(string \<Rightarrow> string) \<Rightarrow> AdminRole" where
  "ADMIN u =
     \<lparr> role_id = ''admin'', role_name = ''Admin'',
       role_description = ''Standard admin access with most permissions'',
       permissions = map (mk_permission u)
         [VIEW_TRANSACTIONS, EDIT_TRANSACTIONS, CANCEL_TRANSACTIONS,
          VIEW_USERS, EDIT_USERS, DEACTIVATE_USERS, VERIFY_USERS,
          VIEW_DATA, EDIT_DATA, VIEW_AUDIT_LOGS, VIEW_ANALYTICS, MANAGE_DISPUTES] \<rparr>"

definition MODERATOR :: "(string \<Rightarrow> string) \<Rightarrow> AdminRole" where
  "MODERATOR u =
     \<lparr> role_id = ''moderator'', role_name = ''Moderator'',
       role_description = ''Limited admin access for content moderation'',
       permissions = map (mk_permission u)
         [VIEW_TRANSACTIONS, VIEW_USERS, EDIT_USERS, VERIFY_USERS,
          VIEW_ANALYTICS, MANAGE_DISPUTES] \<rparr>"

text \<open>\<open>ADMIN_ROLES[key]\<close>: the three own properties of the literal.\<close>

definition ADMIN_ROLES :: "(string \<Rightarrow> string) \<Rightarrow> string \<Rightarrow> AdminRole option" where
  "ADMIN_ROLES u =
     map_of [(''SUPER_ADMIN'', SUPER_ADMIN u), (''ADMIN'', ADMIN u), (''MODERATOR'', MODERATOR u)]"

section \<open>The storage collaborator\<close>

text \<open>
  The storage client is external. A table is the list of its rows; every call is
  recorded in \<open>calls\<close>, oldest first, and the diagnostics written with
  \<open>console.warn\<close> and \<open>console.error\<close> in \<open>console\<close>. What the client
  answers beyond the table contents (an error result, or an exception) is an input of the
  request, given per call by \<open>faults\<close>; \<open>unicode_upper\<close> is the case mapping of the
  platform, which \<open>toUpperCase\<close> follows outside ASCII. A statement that demands a single row
  (\<open>.single()\<close>) and meets none or several answers with an error and changes nothing.
\<close>

datatype call =
    Select string string string
  | Update string string row
  | Insert string row
  | Delete string string

datatype fault = NoFault | ErrorResult string | Throws

datatype 'a result = Data 'a | Error string | Thrown

datatype diag = Warn string | Err string

record env =
  now :: string
  faults :: "call \<Rightarrow> fault"
  unicode_upper :: "string \<Rightarrow> string"

record world =
  tables :: "string \<Rightarrow> row list"
  calls :: "call list"
  console :: "diag list"

definition matches :: "string \<Rightarrow> row \<Rightarrow> bool" where
  "matches i r = (r ''id'' = Some (JStr i))"

definition no_single_row :: string where
  "no_single_row = ''JSON object requested, multiple (or no) rows returned''"

definition project :: "string \<Rightarrow> row \<Rightarrow> row" where
  "project cols r = (if cols = ''*'' then r else r |` {cols})"

definition record_call :: "call \<Rightarrow> world \<Rightarrow> world" where
  "record_call c w = w\<lparr>calls := calls w @ [c]\<rparr>"

definition console_warn :: "string \<Rightarrow> world \<Rightarrow> world" where
  "console_warn m w = w\<lparr>console := console w @ [Warn m]\<rparr>"

definition console_error :: "string \<Rightarrow> world \<Rightarrow> world" where
  "console_error m w = w\<lparr>console := console w @ [Err m]\<rparr>"

text \<open>\<open>.from(t).select(cols).eq("id", i).single()\<close>\<close>

definition select_single :: "env \<Rightarrow> string \<Rightarrow> string \<Rightarrow> string \<Rightarrow> world \<Rightarrow> world \<times> row result" where
  "select_single e t cols i w =
     (let w' = record_call (Select t cols i) w in
      case faults e (Select t cols i) of
        Throws \<Rightarrow> (w', Thrown)
      | ErrorResult m \<Rightarrow> (w', Error m)
      | NoFault \<Rightarrow>
          (case filter (matches i) (tables w t) of
             [r] \<Rightarrow> (w', Data (project cols r))
           | _ \<Rightarrow> (w', Error no_single_row)))"

text \<open>\<open>.from(t).update(upd).eq("id", i).select().single()\<close>\<close>

definition update_single :: "env \<Rightarrow> string \<Rightarrow> string \<Rightarrow> row \<Rightarrow> world \<Rightarrow> world \<times> row result" where
  "update_single e t i upd w =
     (let w' = record_call (Update t i upd) w in
      case faults e (Update t i upd) of
        Throws \<Rightarrow> (w', Thrown)
      | ErrorResult m \<Rightarrow> (w', Error m)
      | NoFault \<Rightarrow>
          (case filter (matches i) (tables w t) of
             [r] \<Rightarrow>
               (w'\<lparr>tables := (tables w)
                    (t := map (\<lambda>x. if matches i x then x ++ upd else x) (tables w t))\<rparr>,
                Data (r ++ upd))
           | _ \<Rightarrow> (w', Error no_single_row)))"

text \<open>\<open>.from(t).update(upd).eq("id", i)\<close>, with no row demanded back.\<close>

definition update_rows :: "env \<Rightarrow> string \<Rightarrow> string \<Rightarrow> row \<Rightarrow> world \<Rightarrow> world \<times> row list result" where
  "update_rows e t i upd w =
     (let w' = record_call (Update t i upd) w in
      case faults e (Update t i upd) of
        Throws \<Rightarrow> (w', Thrown)
      | ErrorResult m \<Rightarrow> (w', Error m)
      | NoFault \<Rightarrow>
          (w'\<lparr>tables := (tables w)
               (t := map (\<lambda>x. if matches i x then x ++ upd else x) (tables w t))\<rparr>,
           Data (map (\<lambda>x. x ++ upd) (filter (matches i) (tables w t)))))"

text \<open>\<open>.from(t).delete().eq("id", i)\<close>\<close>

definition delete_rows :: "env \<Rightarrow> string \<Rightarrow> string \<Rightarrow> world \<Rightarrow> world \<times> unit result" where
  "delete_rows e t i w =
     (let w' = record_call (Delete t i) w in
      case faults e (Delete t i) of
        Throws \<Rightarrow> (w', Thrown)
      | ErrorResult m \<Rightarrow> (w', Error m)
      | NoFault \<Rightarrow>
          (w'\<lparr>tables := (tables w)(t := filter (\<lambda>x. \<not> matches i x) (tables w t))\<rparr>,
           Data ()))"

text \<open>\<open>.from(t).insert(r)\<close>\<close>

definition insert_row :: "env \<Rightarrow> string \<Rightarrow> row \<Rightarrow> world \<Rightarrow> world \<times> unit result" where
  "insert_row e t r w =
     (let w' = record_call (Insert t r) w in
      case faults e (Insert t r) of
        Throws \<Rightarrow> (w', Thrown)
      | ErrorResult m \<Rightarrow> (w', Error m)
      | NoFault \<Rightarrow> (w'\<lparr>tables := (tables w)(t := tables w t @ [r])\<rparr>, Data ()))"

section \<open>Authorization and the audit append (lib/adminPermissions.ts)\<close>

text \<open>
  \<open>hasAdminPermission\<close>, with the role table it consults as a parameter. Reading
  \<open>toUpperCase\<close> of a role that is no string throws, and the \<open>catch\<close> answers
  \<open>false\<close>.
\<close>

definition hasAdminPermission_in ::
  "(string \<Rightarrow> AdminRole option) \<Rightarrow> env \<Rightarrow> string \<Rightarrow> string \<Rightarrow> world \<Rightarrow> world \<times> bool" where
  "hasAdminPermission_in roles e adminId permission w =
     (case select_single e ''profiles'' ''role'' adminId w of
        (w1, Thrown) \<Rightarrow> (console_error ''Error checking admin permission:'' w1, False)
      | (w1, Error m) \<Rightarrow> (w1, False)
      | (w1, Data profile) \<Rightarrow>
          (if profile ''role'' = Some (JStr ''admin'') then (w1, True)
           else (case profile ''role'' of
                   Some (JStr r) \<Rightarrow>
                     (case roles (toUpperCase (unicode_upper e) r) of
                        None \<Rightarrow> (w1, False)
                      | Some role \<Rightarrow>
                          (w1, list_ex (\<lambda>p. perm_id p = permission) (permissions role)))
                 | _ \<Rightarrow> (console_error ''Error checking admin permission:'' w1, False))))"

definition hasAdminPermission :: "env \<Rightarrow> string \<Rightarrow> string \<Rightarrow> world \<Rightarrow> world \<times> bool" where
  "hasAdminPermission e = hasAdminPermission_in (ADMIN_ROLES (unicode_upper e)) e"

definition getAdminPermissions_in ::
  "(string \<Rightarrow> AdminRole option) \<Rightarrow> env \<Rightarrow> string \<Rightarrow> world \<Rightarrow> world \<times> string list" where
  "getAdminPermissions_in roles e adminId w =
     (case select_single e ''profiles'' ''role'' adminId w of
        (w1, Thrown) \<Rightarrow> (console_error ''Error getting admin permissions:'' w1, [])
      | (w1, Error m) \<Rightarrow> (w1, [])
      | (w1, Data profile) \<Rightarrow>
          (if profile ''role'' = Some (JStr ''admin'') then (w1, ADMIN_PERMISSIONS_values)
           else (case profile ''role'' of
                   Some (JStr r) \<Rightarrow>
                     (case roles (toUpperCase (unicode_upper e) r) of
                        None \<Rightarrow> (w1, [])
                      | Some role \<Rightarrow> (w1, map perm_id (permissions role)))
                 | _ \<Rightarrow> (console_error ''Error getting admin permissions:'' w1, []))))"

definition getAdminPermissions :: "env \<Rightarrow> string \<Rightarrow> world \<Rightarrow> world \<times> string list" where
  "getAdminPermissions e = getAdminPermissions_in (ADMIN_ROLES (unicode_upper e)) e"

definition requireAdminPermission :: "env \<Rightarrow> string \<Rightarrow> string \<Rightarrow> world \<Rightarrow> world \<times> bool" where
  "requireAdminPermission e adminId permission w =
     (case hasAdminPermission e adminId permission w of
        (w1, hasPermission) \<Rightarrow>
          (if \<not> hasPermission
           then (console_warn (''Admin '' @ adminId @ '' attempted to access '' @ permission
                    @ '' without permission'') w1, hasPermission)
           else (w1, hasPermission)))"

definition jstr_or_null :: "string option \<Rightarrow> jval" where
  "jstr_or_null s = (case s of None \<Rightarrow> JNull | Some x \<Rightarrow> JStr x)"

definition audit_row ::
  "string \<Rightarrow> string \<Rightarrow> jval \<Rightarrow> jval \<Rightarrow> jval \<Rightarrow> jval \<Rightarrow> jval \<Rightarrow> jval \<Rightarrow> row" where
  "audit_row act entityType entityId oldValue newValue performedBy ipAddress userAgent =
     [''action'' \<mapsto> JStr act, ''entity_type'' \<mapsto> JStr entityType, ''entity_id'' \<mapsto> entityId,
      ''old_value'' \<mapsto> oldValue, ''new_value'' \<mapsto> newValue, ''performed_by'' \<mapsto> performedBy,
      ''ip_address'' \<mapsto> ipAddress, ''user_agent'' \<mapsto> userAgent]"

text \<open>
  \<open>logAdminAction\<close>: the result of the insert is dropped; an exception is caught and
  written to the console.
\<close>

definition logAdminAction ::
  "env \<Rightarrow> string \<Rightarrow> string \<Rightarrow> string \<Rightarrow> string option \<Rightarrow> jval \<Rightarrow> jval
     \<Rightarrow> string option \<Rightarrow> string option \<Rightarrow> world \<Rightarrow> world" where
  "logAdminAction e adminId act entityType entityId oldValue newValue ipAddress userAgent w =
     (case insert_row e ''audit_logs''
             (audit_row act entityType (jstr_or_null entityId) oldValue newValue (JStr adminId)
                (jstr_or_null ipAddress) (jstr_or_null userAgent)) w of
        (w1, Thrown) \<Rightarrow> console_error ''Error logging admin action:'' w1
      | (w1, _) \<Rightarrow> w1)"

section \<open>Requests and responses\<close>

text \<open>
  \<open>requireAdmin\<close> (lib/adminAuth) and \<open>supabaseAdmin.auth.getUser\<close> are external:
  what they answer is part of the request. \<open>body\<close> is \<open>None\<close> when
  \<open>req.json()\<close> throws. \<open>Uncaught\<close> is an exception that leaves the handler.
\<close>

datatype response = Response nat jval | Uncaught

datatype auth_result = Rejected response | Admin string

record request =
  auth :: auth_result
  user :: "string option"
  body :: "row option"
  headers :: "string \<Rightarrow> string option"

definition json_error :: "nat \<Rightarrow> string \<Rightarrow> response" where
  "json_error code m = Response code (JObj [''error'' \<mapsto> JStr m])"

text \<open>\<open>a || b\<close> on header reads: an absent or empty header is falsy.\<close>

fun or_else :: "string option \<Rightarrow> string option \<Rightarrow> string option" where
  "or_else (Some s) b = (if s \<noteq> [] then Some s else b)"
| "or_else None b = b"

definition ip_or_null :: "request \<Rightarrow> string option" where
  "ip_or_null req = or_else (headers req ''x-forwarded-for'') (or_else (headers req ''x-real-ip'') None)"

definition agent_or_null :: "request \<Rightarrow> string option" where
  "agent_or_null req = or_else (headers req ''user-agent'') None"

definition ip_or_unknown :: "request \<Rightarrow> string option" where
  "ip_or_unknown req =
     or_else (headers req ''x-forwarded-for'') (or_else (headers req ''x-real-ip'') (Some ''unknown''))"

definition agent_or_unknown :: "request \<Rightarrow> string option" where
  "agent_or_unknown req = or_else (headers req ''user-agent'') (Some ''unknown'')"

section \<open>app/api/admin/transactions/[id]/route.ts\<close>

definition PUT_transaction :: "env \<Rightarrow> request \<Rightarrow> string \<Rightarrow> world \<Rightarrow> world \<times> response" where
  "PUT_transaction e req tid w =
     (case auth req of
        Rejected r \<Rightarrow> (w, r)
      | Admin adminId \<Rightarrow>
          (case requireAdminPermission e adminId EDIT_TRANSACTIONS w of
             (w1, False) \<Rightarrow> (w1, json_error 403 ''Insufficient permissions'')
           | (w1, True) \<Rightarrow>
               (case body req of
                  None \<Rightarrow> (w1, json_error 400 ''Invalid request data'')
                | Some updateData \<Rightarrow>
                    (case select_single e ''escrow_transactions'' ''*'' tid w1 of
                       (w2, Thrown) \<Rightarrow> (w2, json_error 400 ''Invalid request data'')
                     | (w2, Error m) \<Rightarrow> (w2, json_error 404 ''Transaction not found'')
                     | (w2, Data currentTransaction) \<Rightarrow>
                         (case update_single e ''escrow_transactions'' tid
                                 (updateData(''updated_at'' \<mapsto> JStr (now e))) w2 of
                            (w3, Thrown) \<Rightarrow> (w3, json_error 400 ''Invalid request data'')
                          | (w3, Error m) \<Rightarrow> (w3, json_error 500 m)
                          | (w3, Data data) \<Rightarrow>
                              (logAdminAction e adminId ''UPDATE_TRANSACTION'' ''transaction''
                                 (Some tid) (JObj currentTransaction) (JObj data)
                                 (ip_or_null req) (agent_or_null req) w3,
                               Response 200 (JObj data)))))))"

definition DELETE_transaction :: "env \<Rightarrow> request \<Rightarrow> string \<Rightarrow> world \<Rightarrow> world \<times> response" where
  "DELETE_transaction e req tid w =
     (case auth req of
        Rejected r \<Rightarrow> (w, r)
      | Admin adminId \<Rightarrow>
          (case requireAdminPermission e adminId CANCEL_TRANSACTIONS w of
             (w1, False) \<Rightarrow> (w1, json_error 403 ''Insufficient permissions'')
           | (w1, True) \<Rightarrow>
               (case select_single e ''escrow_transactions'' ''*'' tid w1 of
                  (w2, Thrown) \<Rightarrow> (w2, json_error 500 ''Failed to cancel transaction'')
                | (w2, Error m) \<Rightarrow> (w2, json_error 404 ''Transaction not found'')
                | (w2, Data currentTransaction) \<Rightarrow>
                    (if currentTransaction ''status'' = Some (JStr ''completed'')
                     then (w2, json_error 400 ''Cannot cancel completed transaction'')
                     else
                       (case update_single e ''escrow_transactions'' tid
                               [''status'' \<mapsto> JStr ''cancelled'', ''updated_at'' \<mapsto> JStr (now e)] w2 of
                          (w3, Thrown) \<Rightarrow> (w3, json_error 500 ''Failed to cancel transaction'')
                        | (w3, Error m) \<Rightarrow> (w3, json_error 500 m)
                        | (w3, Data data) \<Rightarrow>
                            (logAdminAction e adminId ''CANCEL_TRANSACTION'' ''transaction''
                               (Some tid) (JObj currentTransaction) (JObj data)
                               (ip_or_null req) (agent_or_null req) w3,
                             Response 200
                               (JObj [''message'' \<mapsto> JStr ''Transaction cancelled successfully'',
                                      ''transaction'' \<mapsto> JObj data])))))))"

section \<open>The users route (PUT and DELETE /api/admin/users/[id])\<close>

definition PUT_user :: "env \<Rightarrow> request \<Rightarrow> string \<Rightarrow> world \<Rightarrow> world \<times> response" where
  "PUT_user e req uid w =
     (case auth req of
        Rejected r \<Rightarrow> (w, r)
      | Admin adminId \<Rightarrow>
          (case user req of
             None \<Rightarrow> (w, json_error 401 ''Unauthorized'')
           | Some user_id \<Rightarrow>
               (case body req of
                  None \<Rightarrow> (w, json_error 400 ''Invalid request data'')
                | Some updateData \<Rightarrow>
                    (case select_single e ''profiles'' ''*'' uid w of
                       (w1, Thrown) \<Rightarrow> (w1, json_error 400 ''Invalid request data'')
                     | (w1, Error m) \<Rightarrow> (w1, json_error 404 ''User not found'')
                     | (w1, Data currentUser) \<Rightarrow>
                         (if user_id = uid \<and> truthy (updateData ''role'')
                               \<and> updateData ''role'' \<noteq> Some (JStr ''admin'')
                          then (w1, json_error 400 ''Cannot change your own admin role'')
                          else
                            (case update_single e ''profiles'' uid
                                    (updateData(''updated_at'' \<mapsto> JStr (now e))) w1 of
                               (w2, Thrown) \<Rightarrow> (w2, json_error 400 ''Invalid request data'')
                             | (w2, Error m) \<Rightarrow> (w2, json_error 500 m)
                             | (w2, Data data) \<Rightarrow>
                                 (case insert_row e ''audit_logs''
                                         (audit_row ''UPDATE_USER'' ''user'' (JStr uid)
                                            (JObj currentUser) (JObj data) (JStr user_id)
                                            (jstr_or_null (ip_or_unknown req))
                                            (jstr_or_null (agent_or_unknown req))) w2 of
                                    (w3, Thrown) \<Rightarrow> (w3, json_error 400 ''Invalid request data'')
                                  | (w3, _) \<Rightarrow> (w3, Response 200 (JObj data)))))))))"

definition DELETE_user :: "env \<Rightarrow> request \<Rightarrow> string \<Rightarrow> world \<Rightarrow> world \<times> response" where
  "DELETE_user e req uid w =
     (case auth req of
        Rejected r \<Rightarrow> (w, r)
      | Admin adminId \<Rightarrow>
          (case user req of
             None \<Rightarrow> (w, json_error 401 ''Unauthorized'')
           | Some user_id \<Rightarrow>
               (if user_id = uid then (w, json_error 400 ''Cannot deactivate your own account'')
                else
                  (case select_single e ''profiles'' ''*'' uid w of
                     (w1, Thrown) \<Rightarrow> (w1, json_error 500 ''Failed to deactivate user'')
                   | (w1, Error m) \<Rightarrow> (w1, json_error 404 ''User not found'')
                   | (w1, Data currentUser) \<Rightarrow>
                       (case update_single e ''profiles'' uid
                               [''status'' \<mapsto> JStr ''inactive'', ''updated_at'' \<mapsto> JStr (now e)] w1 of
                          (w2, Thrown) \<Rightarrow> (w2, json_error 500 ''Failed to deactivate user'')
                        | (w2, Error m) \<Rightarrow> (w2, json_error 500 m)
                        | (w2, Data data) \<Rightarrow>
                            (case insert_row e ''audit_logs''
                                    (audit_row ''DEACTIVATE_USER'' ''user'' (JStr uid)
                                       (JObj currentUser) (JObj data) (JStr user_id)
                                       (jstr_or_null (ip_or_unknown req))
                                       (jstr_or_null (agent_or_unknown req))) w2 of
                               (w3, Thrown) \<Rightarrow> (w3, json_error 500 ''Failed to deactivate user'')
                             | (w3, _) \<Rightarrow>
                                 (w3, Response 200
                                        (JObj [''message'' \<mapsto> JStr ''User deactivated successfully'',
                                               ''user'' \<mapsto> JObj data]))))))))"

section \<open>The data route (PUT and DELETE /api/admin/data/[table]/[id])\<close>

definition allowedTables :: "string list" where
  "allowedTables =
     [''profiles'', ''transactions'', ''escrow_transactions'', ''disputes'', ''audit_logs'',
      ''verification_queue'']"

text \<open>\<open>const { id: _, created_at, ...allowedUpdates } = updateData\<close>\<close>

definition allowedUpdates :: "row \<Rightarrow> row" where
  "allowedUpdates updateData = updateData |` (- {''id'', ''created_at''})"

definition finalUpdateData :: "env \<Rightarrow> row \<Rightarrow> row" where
  "finalUpdateData e updateData = (allowedUpdates updateData)(''updated_at'' \<mapsto> JStr (now e))"

definition PUT_data :: "env \<Rightarrow> request \<Rightarrow> string \<Rightarrow> string \<Rightarrow> world \<Rightarrow> world \<times> response" where
  "PUT_data e req table rid w =
     (case auth req of
        Rejected r \<Rightarrow> (w, r)
      | Admin adminId \<Rightarrow>
          (if table \<notin> set allowedTables then (w, json_error 403 ''Table not allowed'')
           else
             (case user req of
                None \<Rightarrow> (w, json_error 401 ''Unauthorized'')
              | Some user_id \<Rightarrow>
                  (case body req of
                     None \<Rightarrow> (w, json_error 400 ''Invalid request data'')
                   | Some updateData \<Rightarrow>
                       (case select_single e table ''*'' rid w of
                          (w1, Thrown) \<Rightarrow> (w1, json_error 400 ''Invalid request data'')
                        | (w1, Error m) \<Rightarrow> (w1, json_error 404 ''Row not found'')
                        | (w1, Data currentData) \<Rightarrow>
                            (case update_single e table rid (finalUpdateData e updateData) w1 of
                               (w2, Thrown) \<Rightarrow> (w2, json_error 400 ''Invalid request data'')
                             | (w2, Error m) \<Rightarrow> (w2, json_error 500 m)
                             | (w2, Data data) \<Rightarrow>
                                 (case insert_row e ''audit_logs''
                                         (audit_row (''UPDATE_'' @ toUpperCase (unicode_upper e) table) table
                                            (JStr rid)
                                            (JObj currentData) (JObj data) (JStr user_id)
                                            (jstr_or_null (ip_or_unknown req))
                                            (jstr_or_null (agent_or_unknown req))) w2 of
                                    (w3, Thrown) \<Rightarrow> (w3, json_error 400 ''Invalid request data'')
                                  | (w3, _) \<Rightarrow> (w3, Response 200 (JObj data)))))))))"

definition DELETE_data :: "env \<Rightarrow> request \<Rightarrow> string \<Rightarrow> string \<Rightarrow> world \<Rightarrow> world \<times> response" where
  "DELETE_data e req table rid w =
     (case auth req of
        Rejected r \<Rightarrow> (w, r)
      | Admin adminId \<Rightarrow>
          (if table \<notin> set allowedTables then (w, json_error 403 ''Table not allowed'')
           else
             (case user req of
                None \<Rightarrow> (w, json_error 401 ''Unauthorized'')
              | Some user_id \<Rightarrow>
                  (case select_single e table ''*'' rid w of
                     (w1, Thrown) \<Rightarrow> (w1, json_error 500 ''Failed to delete row'')
                   | (w1, Error m) \<Rightarrow> (w1, json_error 404 ''Row not found'')
                   | (w1, Data currentData) \<Rightarrow>
                       (case delete_rows e table rid w1 of
                          (w2, Thrown) \<Rightarrow> (w2, json_error 500 ''Failed to delete row'')
                        | (w2, Error m) \<Rightarrow> (w2, json_error 500 m)
                        | (w2, Data u) \<Rightarrow>
                            (case insert_row e ''audit_logs''
                                    (audit_row (''DELETE_'' @ toUpperCase (unicode_upper e) table) table
                                       (JStr rid)
                                       (JObj currentData) JNull (JStr user_id)
                                       (jstr_or_null (ip_or_unknown req))
                                       (jstr_or_null (agent_or_unknown req))) w2 of
                               (w3, Thrown) \<Rightarrow> (w3, json_error 500 ''Failed to delete row'')
                             | (w3, _) \<Rightarrow>
                                 (w3, Response 200
                                        (JObj [''message'' \<mapsto> JStr ''Row deleted successfully'']))))))))"

section \<open>The user_profiles route (PUT and DELETE, second module of lib/adminPermissions.ts)\<close>

definition PUT_user_profile :: "env \<Rightarrow> request \<Rightarrow> string \<Rightarrow> world \<Rightarrow> world \<times> response" where
  "PUT_user_profile e req uid w =
     (case auth req of
        Rejected r \<Rightarrow> (w, r)
      | Admin adminId \<Rightarrow>
          (case body req of
             None \<Rightarrow> (w, Uncaught)
           | Some updates \<Rightarrow>
               (case update_rows e ''user_profiles'' uid updates w of
                  (w1, Thrown) \<Rightarrow> (w1, Uncaught)
                | (w1, Error m) \<Rightarrow> (w1, json_error 500 m)
                | (w1, Data data) \<Rightarrow> (w1, Response 200 (JArr (map JObj data))))))"

definition DELETE_user_profile :: "env \<Rightarrow> request \<Rightarrow> string \<Rightarrow> world \<Rightarrow> world \<times> response" where
  "DELETE_user_profile e req uid w =
     (case auth req of
        Rejected r \<Rightarrow> (w, r)
      | Admin adminId \<Rightarrow>
          (case delete_rows e ''user_profiles'' uid w of
             (w1, Thrown) \<Rightarrow> (w1, Uncaught)
           | (w1, Error m) \<Rightarrow> (w1, json_error 500 m)
           | (w1, Data u) \<Rightarrow> (w1, Response 200 (JObj [''success'' \<mapsto> JBool True]))))"

section \<open>Example requests\<close>

text \<open>
  A small store used to run the handlers (its strings are ASCII, so the case mapping of the
  environments below is never consulted): an admin \<open>u1\<close>, a moderator \<open>u2\<close>, a
  plain user \<open>u3\<close>, a completed transaction \<open>t1\<close> and a pending one \<open>t2\<close>.
\<close>

definition profile_row :: "string \<Rightarrow> string \<Rightarrow> row" where
  "profile_row i r = [''id'' \<mapsto> JStr i, ''role'' \<mapsto> JStr r, ''status'' \<mapsto> JStr ''active'']"

definition transaction_row :: "string \<Rightarrow> string \<Rightarrow> row" where
  "transaction_row i s = [''id'' \<mapsto> JStr i, ''status'' \<mapsto> JStr s, ''amount'' \<mapsto> JNum 100]"

definition example_tables :: "string \<Rightarrow> row list" where
  "example_tables t =
     (if t = ''profiles''
      then [profile_row ''u1'' ''admin'', profile_row ''u2'' ''moderator'', profile_row ''u3'' ''user'']
      else if t = ''escrow_transactions''
      then [transaction_row ''t1'' ''completed'', transaction_row ''t2'' ''pending'']
      else [])"

definition example_world :: world where
  "example_world = \<lparr> tables = example_tables, calls = [], console = [] \<rparr>"

definition example_env :: env where
  "example_env =
     \<lparr> now = ''2024-01-01T00:00:00.000Z'', faults = (\<lambda>c. NoFault), unicode_upper = (\<lambda>s. s) \<rparr>"

text \<open>The same environment, with every insert into \<open>audit_logs\<close> throwing.\<close>

definition audit_throws_env :: env where
  "audit_throws_env =
     \<lparr> now = ''2024-01-01T00:00:00.000Z'',
       faults = (\<lambda>c. case c of Insert t r \<Rightarrow> Throws | _ \<Rightarrow> NoFault),
       unicode_upper = (\<lambda>s. s) \<rparr>"

text \<open>The same environment, with every insert into \<open>audit_logs\<close> answering an error.\<close>

definition audit_error_env :: env where
  "audit_error_env =
     \<lparr> now = ''2024-01-01T00:00:00.000Z'',
       faults = (\<lambda>c. case c of Insert t r \<Rightarrow> ErrorResult ''insert failed'' | _ \<Rightarrow> NoFault),
       unicode_upper = (\<lambda>s. s) \<rparr>"

definition example_request :: "string \<Rightarrow> row option \<Rightarrow> request" where
  "example_request actor b =
     \<lparr> auth = Admin actor, user = Some actor, body = b, headers = (\<lambda>h. None) \<rparr>"

section \<open>Authorization decisions\<close>

lemma fst_select_single:
  "fst (select_single e t c i w) = record_call (Select t c i) w"
  by (simp add: select_single_def Let_def split: fault.splits list.splits)

lemma hasAdminPermission_in_admin:
  assumes "snd (select_single e ''profiles'' ''role'' a w) = Data profile"
    and "profile ''role'' = Some (JStr ''admin'')"
  shows "snd (hasAdminPermission_in roles e a p w) = True"
proof -
  obtain w1 where "select_single e ''profiles'' ''role'' a w = (w1, Data profile)"
    using assms(1) by (cases "select_single e ''profiles'' ''role'' a w") simp
  then show ?thesis
    using assms(2) by (simp add: hasAdminPermission_in_def)
qed

lemma hasAdminPermission_in_role:
  assumes "snd (select_single e ''profiles'' ''role'' a w) = Data profile"
    and "profile ''role'' = Some (JStr r)" and "r \<noteq> ''admin''"
  shows "snd (hasAdminPermission_in roles e a p w) =
           (\<exists>role. roles (toUpperCase (unicode_upper e) r) = Some role
              \<and> p \<in> perm_id ` set (permissions role))"
proof -
  obtain w1 where "select_single e ''profiles'' ''role'' a w = (w1, Data profile)"
    using assms(1) by (cases "select_single e ''profiles'' ''role'' a w") simp
  then show ?thesis
    using assms(2,3)
    by (auto simp add: hasAdminPermission_in_def list_ex_iff split: option.splits)
qed




lemma getAdminPermissions_in_admin:
  assumes "snd (select_single e ''profiles'' ''role'' a w) = Data profile"
    and "profile ''role'' = Some (JStr ''admin'')"
  shows "snd (getAdminPermissions_in roles e a w) = ADMIN_PERMISSIONS_values"
proof -
  obtain w1 where "select_single e ''profiles'' ''role'' a w = (w1, Data profile)"
    using assms(1) by (cases "select_single e ''profiles'' ''role'' a w") simp
  then show ?thesis
    using assms(2) by (simp add: getAdminPermissions_in_def)
qed


lemma toUpperCase_moderator: "toUpperCase u ''moderator'' = ''MODERATOR''"
  by (simp add: toUpperCase_def is_ascii_def upper_char_def)


lemma ADMIN_ROLES_keys:
  "ADMIN_ROLES u k = Some role \<longleftrightarrow>
     (k = ''SUPER_ADMIN'' \<and> role = SUPER_ADMIN u) \<or> (k = ''ADMIN'' \<and> role = ADMIN u)
       \<or> (k = ''MODERATOR'' \<and> role = MODERATOR u)"
  by (auto simp add: ADMIN_ROLES_def)

lemma moderator_permission_ids:
  "perm_id ` set (permissions (MODERATOR u)) =
     {VIEW_TRANSACTIONS, VIEW_USERS, EDIT_USERS, VERIFY_USERS, VIEW_ANALYTICS, MANAGE_DISPUTES}"
  by (simp add: MODERATOR_def mk_permission_def)

lemma admin_entry_permission_ids:
  "perm_id ` set (permissions (ADMIN u)) =
     {VIEW_TRANSACTIONS, EDIT_TRANSACTIONS, CANCEL_TRANSACTIONS, VIEW_USERS, EDIT_USERS,
      DEACTIVATE_USERS, VERIFY_USERS, VIEW_DATA, EDIT_DATA, VIEW_AUDIT_LOGS, VIEW_ANALYTICS,
      MANAGE_DISPUTES}"
  by (simp add: ADMIN_def mk_permission_def)


lemma toUpperCase_not_ascii: "\<not> is_ascii s \<Longrightarrow> toUpperCase u s = u s"
  by (simp add: toUpperCase_def)



text \<open>
  A role whose name has a letter outside ASCII is looked up under the name the case
  mapping of the platform gives: with a mapping that sends it to \<open>ADMIN\<close>, as Unicode
  does for \<open>adm\<close>, dotless i, \<open>n\<close>, the actor has the permissions of the \<open>ADMIN\<close>
  entry.
\<close>

lemma non_ascii_role_resolves_by_case_mapping:
  assumes "snd (select_single e ''profiles'' ''role'' a w) = Data profile"
    and "profile ''role'' = Some (JStr r)" and "\<not> is_ascii r"
    and "unicode_upper e r = ''ADMIN''"
  shows "snd (hasAdminPermission e a EDIT_TRANSACTIONS w)"
proof -
  have "is_ascii ''admin''"
    by (simp add: is_ascii_def)
  with assms(3) have n: "r \<noteq> ''admin''"
    by auto
  have "snd (hasAdminPermission e a EDIT_TRANSACTIONS w) =
      (\<exists>role. ADMIN_ROLES (unicode_upper e) (toUpperCase (unicode_upper e) r) = Some role
         \<and> EDIT_TRANSACTIONS \<in> perm_id ` set (permissions role))"
    unfolding hasAdminPermission_def using assms(1,2) n
    by (rule hasAdminPermission_in_role)
  also have "\<dots> = (EDIT_TRANSACTIONS \<in> perm_id ` set (permissions (ADMIN (unicode_upper e))))"
    using assms(3,4) by (simp add: toUpperCase_not_ascii ADMIN_ROLES_keys)
  also have "\<dots> = True"
    by (simp add: admin_entry_permission_ids)
  finally show ?thesis by simp
qed



text \<open>
  C6. For an actor whose resolved role is \<open>admin\<close>, \<open>hasAdminPermission\<close> allows
  every permission string, whatever the role table holds: the answer is given before the
  table is consulted, so it also covers permissions that the \<open>ADMIN\<close> entry of the table
  does not list, such as \<open>delete_transactions\<close>.
\<close>

theorem admin_role_allows_everything:
  assumes "snd (select_single e ''profiles'' ''role'' a w) = Data profile"
    and "profile ''role'' = Some (JStr ''admin'')"
  shows "snd (hasAdminPermission_in roles e a p w) \<and> snd (hasAdminPermission e a p w)
    \<and> DELETE_TRANSACTIONS \<notin> perm_id ` set (permissions (ADMIN u))"
  using assms
  by (simp add: hasAdminPermission_def hasAdminPermission_in_admin admin_entry_permission_ids
      permission_names)

theorem admin_role_allows_everything_witness:
  "snd (hasAdminPermission_in (\<lambda>k. None) example_env ''u1'' ''a_permission_added_later'' example_world)
   \<and> snd (hasAdminPermission example_env ''u1'' DELETE_TRANSACTIONS example_world)
   \<and> DELETE_TRANSACTIONS \<notin> perm_id ` set (permissions (ADMIN (unicode_upper example_env)))"
proof -
  have u1: "snd (select_single example_env ''profiles'' ''role'' ''u1'' example_world) =
      Data (profile_row ''u1'' ''admin'' |` {''role''})"
    by (simp add: select_single_def example_env_def example_world_def example_tables_def
      profile_row_def matches_def project_def Let_def)
  have r: "(profile_row ''u1'' ''admin'' |` {''role''}) ''role'' = Some (JStr ''admin'')"
    by (simp add: profile_row_def)
  from admin_role_allows_everything [OF u1 r, where roles = "\<lambda>k. None"
      and p = "''a_permission_added_later''"]
    admin_role_allows_everything [OF u1 r, where roles = "ADMIN_ROLES (unicode_upper example_env)"
      and p = DELETE_TRANSACTIONS and u = "unicode_upper example_env"]
  show ?thesis by blast
qed

text \<open>
  C10. For an actor whose resolved role is exactly \<open>admin\<close>, \<open>hasAdminPermission\<close>
  answers true for every string, \<open>getAdminPermissions\<close> answers the fifteen values of
  \<open>ADMIN_PERMISSIONS\<close>, and so the two disagree on some string: they agree exactly on
  the fifteen values.
\<close>

theorem admin_has_more_than_it_gets:
  assumes "snd (select_single e ''profiles'' ''role'' a w) = Data profile"
    and "profile ''role'' = Some (JStr ''admin'')"
  shows "(\<forall>p. snd (hasAdminPermission e a p w))
    \<and> snd (getAdminPermissions e a w) = ADMIN_PERMISSIONS_values
    \<and> (\<exists>p. snd (hasAdminPermission e a p w) \<noteq> (p \<in> set (snd (getAdminPermissions e a w))))
    \<and> (\<forall>p. (snd (hasAdminPermission e a p w) = (p \<in> set (snd (getAdminPermissions e a w))))
          = (p \<in> set ADMIN_PERMISSIONS_values))"
proof -
  have h: "\<forall>p. snd (hasAdminPermission e a p w)"
    using assms by (simp add: hasAdminPermission_def hasAdminPermission_in_admin)
  have g: "snd (getAdminPermissions e a w) = ADMIN_PERMISSIONS_values"
    using assms by (simp add: getAdminPermissions_def getAdminPermissions_in_admin)
  have "''not_a_permission'' \<notin> set ADMIN_PERMISSIONS_values"
    by (simp add: ADMIN_PERMISSIONS_values_def permission_names)
  with h g have "snd (hasAdminPermission e a ''not_a_permission'' w) \<noteq>
      (''not_a_permission'' \<in> set (snd (getAdminPermissions e a w)))"
    by simp
  moreover from h g have "\<forall>p. (snd (hasAdminPermission e a p w) =
      (p \<in> set (snd (getAdminPermissions e a w)))) = (p \<in> set ADMIN_PERMISSIONS_values)"
    by simp
  ultimately show ?thesis using h g by blast
qed

theorem admin_has_more_than_it_gets_witness:
  "snd (hasAdminPermission example_env ''u1'' ''not_a_permission'' example_world)
   \<and> snd (getAdminPermissions example_env ''u1'' example_world) = ADMIN_PERMISSIONS_values
   \<and> ''not_a_permission'' \<notin> set (snd (getAdminPermissions example_env ''u1'' example_world))"
proof -
  have u1: "snd (select_single example_env ''profiles'' ''role'' ''u1'' example_world) =
      Data (profile_row ''u1'' ''admin'' |` {''role''})"
    by (simp add: select_single_def example_env_def example_world_def example_tables_def
      profile_row_def matches_def project_def Let_def)
  have r: "(profile_row ''u1'' ''admin'' |` {''role''}) ''role'' = Some (JStr ''admin'')"
    by (simp add: profile_row_def)
  have n: "''not_a_permission'' \<notin> set ADMIN_PERMISSIONS_values"
    by (simp add: ADMIN_PERMISSIONS_values_def permission_names)
  from admin_has_more_than_it_gets [OF u1 r] n show ?thesis by metis
qed

section \<open>Effects of the storage calls and of the permission check\<close>

lemma record_call_fields:
  "tables (record_call c w) = tables w"
  "calls (record_call c w) = calls w @ [c]"
  "console (record_call c w) = console w"
  by (simp_all add: record_call_def)

lemma console_warn_fields:
  "tables (console_warn m w) = tables w"
  "calls (console_warn m w) = calls w"
  "console (console_warn m w) = console w @ [Warn m]"
  by (simp_all add: console_warn_def)

lemma console_error_fields:
  "tables (console_error m w) = tables w"
  "calls (console_error m w) = calls w"
  "console (console_error m w) = console w @ [Err m]"
  by (simp_all add: console_error_def)

lemmas world_fields = record_call_fields console_warn_fields console_error_fields

lemma snd_select_single_tables:
  "tables w1 = tables w \<Longrightarrow> snd (select_single e t c i w1) = snd (select_single e t c i w)"
  by (simp add: select_single_def Let_def split: fault.splits list.splits)

lemma select_single_world:
  "select_single e t c i w = (w1, res) \<Longrightarrow> w1 = record_call (Select t c i) w"
  using fst_select_single [of e t c i w] by simp

lemma hasAdminPermission_in_world:
  assumes "hasAdminPermission_in roles e a p w = (w1, b)"
  shows "tables w1 = tables w \<and> calls w1 = calls w @ [Select ''profiles'' ''role'' a]"
proof (cases "select_single e ''profiles'' ''role'' a w")
  case (Pair w0 res)
  then have w0: "w0 = record_call (Select ''profiles'' ''role'' a) w"
    by (rule select_single_world)
  show ?thesis
    using assms Pair w0
    by (cases res)
      (auto simp add: hasAdminPermission_in_def world_fields
        split: if_splits option.splits jval.splits)
qed

lemma requireAdminPermission_world:
  assumes "requireAdminPermission e a p w = (w1, b)"
  shows "tables w1 = tables w \<and> calls w1 = calls w @ [Select ''profiles'' ''role'' a]
    \<and> b = snd (hasAdminPermission e a p w)"
proof (cases "hasAdminPermission e a p w")
  case (Pair w0 h)
  then have "tables w0 = tables w \<and> calls w0 = calls w @ [Select ''profiles'' ''role'' a]"
    unfolding hasAdminPermission_def by (rule hasAdminPermission_in_world)
  with assms Pair show ?thesis
    by (auto simp add: requireAdminPermission_def world_fields split: if_splits)
qed

lemma snd_requireAdminPermission:
  "snd (requireAdminPermission e a p w) = snd (hasAdminPermission e a p w)"
  using requireAdminPermission_world [of e a p w] by (cases "requireAdminPermission e a p w") simp

lemma PUT_transaction_denied:
  assumes "auth req = Admin a" and "\<not> snd (requireAdminPermission e a EDIT_TRANSACTIONS w)"
  shows "snd (PUT_transaction e req tid w) = json_error 403 ''Insufficient permissions''
    \<and> tables (fst (PUT_transaction e req tid w)) = tables w
    \<and> calls (fst (PUT_transaction e req tid w)) = calls w @ [Select ''profiles'' ''role'' a]"
proof (cases "requireAdminPermission e a EDIT_TRANSACTIONS w")
  case (Pair w1 b)
  with assms(2) have b: "b = False" by simp
  from Pair have "tables w1 = tables w \<and> calls w1 = calls w @ [Select ''profiles'' ''role'' a]"
    using requireAdminPermission_world by blast
  with assms(1) Pair b show ?thesis
    by (simp add: PUT_transaction_def)
qed

lemma DELETE_transaction_denied:
  assumes "auth req = Admin a" and "\<not> snd (requireAdminPermission e a CANCEL_TRANSACTIONS w)"
  shows "snd (DELETE_transaction e req tid w) = json_error 403 ''Insufficient permissions''
    \<and> tables (fst (DELETE_transaction e req tid w)) = tables w
    \<and> calls (fst (DELETE_transaction e req tid w)) = calls w @ [Select ''profiles'' ''role'' a]"
proof (cases "requireAdminPermission e a CANCEL_TRANSACTIONS w")
  case (Pair w1 b)
  with assms(2) have b: "b = False" by simp
  from Pair have "tables w1 = tables w \<and> calls w1 = calls w @ [Select ''profiles'' ''role'' a]"
    using requireAdminPermission_world by blast
  with assms(1) Pair b show ?thesis
    by (simp add: DELETE_transaction_def)
qed

lemma moderator_denied:
  assumes "snd (select_single e ''profiles'' ''role'' a w) = Data profile"
    and "profile ''role'' = Some (JStr ''moderator'')"
    and "p \<in> {DELETE_TRANSACTIONS, EDIT_TRANSACTIONS, CANCEL_TRANSACTIONS}"
  shows "\<not> snd (requireAdminPermission e a p w)"
proof -
  have "snd (hasAdminPermission e a p w) =
      (\<exists>role. ADMIN_ROLES (unicode_upper e) (toUpperCase (unicode_upper e) ''moderator'') = Some role
         \<and> p \<in> perm_id ` set (permissions role))"
    unfolding hasAdminPermission_def using assms(1,2)
    by (rule hasAdminPermission_in_role) simp
  also have "\<dots> = (p \<in> perm_id ` set (permissions (MODERATOR (unicode_upper e))))"
    by (simp add: toUpperCase_moderator ADMIN_ROLES_keys)
  also have "\<dots> = False"
    using assms(3) by (auto simp add: moderator_permission_ids permission_names)
  finally show ?thesis
    by (simp add: snd_requireAdminPermission)
qed

lemmas run_defs =
  PUT_transaction_def DELETE_transaction_def PUT_user_def DELETE_user_def PUT_data_def
  DELETE_data_def PUT_user_profile_def DELETE_user_profile_def
  requireAdminPermission_def hasAdminPermission_def hasAdminPermission_in_def
  select_single_def update_single_def update_rows_def delete_rows_def insert_row_def
  logAdminAction_def record_call_def console_warn_def console_error_def matches_def project_def
  example_request_def example_env_def audit_throws_env_def audit_error_env_def
  example_world_def example_tables_def profile_row_def transaction_row_def Let_def

section \<open>Denied requests\<close>

text \<open>
  C7. A request that is denied leaves storage as it was. When \<open>requireAdmin\<close> rejects,
  every handler returns its response with the world untouched, and so do the users and data
  routes when no user is signed in or the table is not an allowed one. When the
  permission check denies, they answer 403, no table has changed (so the transaction is
  unchanged and no audit row is written), and the only storage call made is the lookup of
  the actor's role. An actor whose role is \<open>moderator\<close> is denied \<open>delete_transactions\<close>,
  and also the two permissions that gate the handlers, \<open>edit_transactions\<close> and
  \<open>cancel_transactions\<close>.
\<close>

theorem denied_request_changes_nothing:
  "(auth req = Rejected r \<longrightarrow>
      PUT_transaction e req tid w = (w, r) \<and> DELETE_transaction e req tid w = (w, r)
      \<and> PUT_user e req tid w = (w, r) \<and> DELETE_user e req tid w = (w, r)
      \<and> PUT_data e req table tid w = (w, r) \<and> DELETE_data e req table tid w = (w, r)
      \<and> PUT_user_profile e req tid w = (w, r) \<and> DELETE_user_profile e req tid w = (w, r))
   \<and> (auth req = Admin a \<and> user req = None \<longrightarrow>
      PUT_user e req tid w = (w, json_error 401 ''Unauthorized'')
      \<and> DELETE_user e req tid w = (w, json_error 401 ''Unauthorized'')
      \<and> fst (PUT_data e req table tid w) = w \<and> fst (DELETE_data e req table tid w) = w)
   \<and> (auth req = Admin a \<and> table \<notin> set allowedTables \<longrightarrow>
      PUT_data e req table tid w = (w, json_error 403 ''Table not allowed'')
      \<and> DELETE_data e req table tid w = (w, json_error 403 ''Table not allowed''))
   \<and> (auth req = Admin a \<and> \<not> snd (requireAdminPermission e a EDIT_TRANSACTIONS w) \<longrightarrow>
      snd (PUT_transaction e req tid w) = json_error 403 ''Insufficient permissions''
      \<and> tables (fst (PUT_transaction e req tid w)) = tables w
      \<and> calls (fst (PUT_transaction e req tid w)) = calls w @ [Select ''profiles'' ''role'' a])
   \<and> (auth req = Admin a \<and> \<not> snd (requireAdminPermission e a CANCEL_TRANSACTIONS w) \<longrightarrow>
      snd (DELETE_transaction e req tid w) = json_error 403 ''Insufficient permissions''
      \<and> tables (fst (DELETE_transaction e req tid w)) = tables w
      \<and> calls (fst (DELETE_transaction e req tid w)) = calls w @ [Select ''profiles'' ''role'' a])
   \<and> (snd (select_single e ''profiles'' ''role'' a w) = Data profile
        \<and> profile ''role'' = Some (JStr ''moderator'') \<longrightarrow>
      \<not> snd (requireAdminPermission e a DELETE_TRANSACTIONS w)
      \<and> \<not> snd (requireAdminPermission e a EDIT_TRANSACTIONS w)
      \<and> \<not> snd (requireAdminPermission e a CANCEL_TRANSACTIONS w))"
proof (intro conjI impI)
  assume "auth req = Rejected r"
  then show "PUT_transaction e req tid w = (w, r)" "DELETE_transaction e req tid w = (w, r)"
    "PUT_user e req tid w = (w, r)" "DELETE_user e req tid w = (w, r)"
    "PUT_data e req table tid w = (w, r)" "DELETE_data e req table tid w = (w, r)"
    "PUT_user_profile e req tid w = (w, r)" "DELETE_user_profile e req tid w = (w, r)"
    by (simp_all add: PUT_transaction_def DELETE_transaction_def PUT_user_def DELETE_user_def
        PUT_data_def DELETE_data_def PUT_user_profile_def DELETE_user_profile_def)
next
  assume "auth req = Admin a \<and> user req = None"
  then show "PUT_user e req tid w = (w, json_error 401 ''Unauthorized'')"
    "DELETE_user e req tid w = (w, json_error 401 ''Unauthorized'')"
    "fst (PUT_data e req table tid w) = w" "fst (DELETE_data e req table tid w) = w"
    by (simp_all add: PUT_user_def DELETE_user_def PUT_data_def DELETE_data_def)
next
  assume "auth req = Admin a \<and> table \<notin> set allowedTables"
  then show "PUT_data e req table tid w = (w, json_error 403 ''Table not allowed'')"
    "DELETE_data e req table tid w = (w, json_error 403 ''Table not allowed'')"
    by (simp_all add: PUT_data_def DELETE_data_def)
next
  assume h: "auth req = Admin a \<and> \<not> snd (requireAdminPermission e a EDIT_TRANSACTIONS w)"
  then show "snd (PUT_transaction e req tid w) = json_error 403 ''Insufficient permissions''"
    "tables (fst (PUT_transaction e req tid w)) = tables w"
    "calls (fst (PUT_transaction e req tid w)) = calls w @ [Select ''profiles'' ''role'' a]"
    using PUT_transaction_denied [of req a e w tid] by simp_all
next
  assume h: "auth req = Admin a \<and> \<not> snd (requireAdminPermission e a CANCEL_TRANSACTIONS w)"
  then show "snd (DELETE_transaction e req tid w) = json_error 403 ''Insufficient permissions''"
    "tables (fst (DELETE_transaction e req tid w)) = tables w"
    "calls (fst (DELETE_transaction e req tid w)) = calls w @ [Select ''profiles'' ''role'' a]"
    using DELETE_transaction_denied [of req a e w tid] by simp_all
next
  assume h: "snd (select_single e ''profiles'' ''role'' a w) = Data profile
        \<and> profile ''role'' = Some (JStr ''moderator'')"
  then show "\<not> snd (requireAdminPermission e a DELETE_TRANSACTIONS w)"
    "\<not> snd (requireAdminPermission e a EDIT_TRANSACTIONS w)"
    "\<not> snd (requireAdminPermission e a CANCEL_TRANSACTIONS w)"
    using moderator_denied [of e a w profile] by simp_all
qed

theorem denied_request_changes_nothing_witness:
  "snd (DELETE_transaction example_env (example_request ''u2'' None) ''t2'' example_world) =
      json_error 403 ''Insufficient permissions''
   \<and> tables (fst (DELETE_transaction example_env (example_request ''u2'' None) ''t2'' example_world)) =
      tables example_world
   \<and> calls (fst (DELETE_transaction example_env (example_request ''u2'' None) ''t2'' example_world)) =
      calls example_world @ [Select ''profiles'' ''role'' ''u2'']
   \<and> \<not> snd (requireAdminPermission example_env ''u2'' DELETE_TRANSACTIONS example_world)"
proof -
  have u2: "snd (select_single example_env ''profiles'' ''role'' ''u2'' example_world) =
      Data (profile_row ''u2'' ''moderator'' |` {''role''})
    \<and> (profile_row ''u2'' ''moderator'' |` {''role''}) ''role'' = Some (JStr ''moderator'')"
    by (simp add: select_single_def example_env_def example_world_def example_tables_def
      profile_row_def matches_def project_def Let_def)
  have au: "auth (example_request ''u2'' None) = Admin ''u2''"
    by (simp add: example_request_def)
  note t = denied_request_changes_nothing [where req = "example_request ''u2'' None"
      and e = example_env and tid = "''t2''" and w = example_world and a = "''u2''"
      and profile = "profile_row ''u2'' ''moderator'' |` {''role''}"]
  from t u2 have d: "\<not> snd (requireAdminPermission example_env ''u2'' DELETE_TRANSACTIONS example_world)"
    and c: "\<not> snd (requireAdminPermission example_env ''u2'' CANCEL_TRANSACTIONS example_world)"
    by blast+
  from t au c d show ?thesis by blast
qed

section \<open>Effects of updates and inserts\<close>

lemma update_single_world:
  assumes "update_single e t i upd w = (w1, res)"
  shows "calls w1 = calls w @ [Update t i upd] \<and> console w1 = console w
    \<and> (case res of
          Data d \<Rightarrow> faults e (Update t i upd) = NoFault
            \<and> (\<exists>r. filter (matches i) (tables w t) = [r] \<and> d = r ++ upd)
            \<and> tables w1 = (tables w)(t := map (\<lambda>x. if matches i x then x ++ upd else x) (tables w t))
        | _ \<Rightarrow> tables w1 = tables w)"
  using assms
  by (auto simp add: update_single_def Let_def world_fields split: fault.splits list.splits)

lemma insert_row_world:
  assumes "insert_row e t r w = (w1, res)"
  shows "calls w1 = calls w @ [Insert t r] \<and> console w1 = console w
    \<and> tables w1 = (if faults e (Insert t r) = NoFault then (tables w)(t := tables w t @ [r]) else tables w)
    \<and> (res = Thrown) = (faults e (Insert t r) = Throws)"
  using assms
  by (auto simp add: insert_row_def Let_def world_fields split: fault.splits)

lemma logAdminAction_world:
  "calls (logAdminAction e a act et ei ov nv ip ua w) =
      calls w @ [Insert ''audit_logs'' (audit_row act et (jstr_or_null ei) ov nv (JStr a)
         (jstr_or_null ip) (jstr_or_null ua))]
   \<and> tables (logAdminAction e a act et ei ov nv ip ua w) =
      (if faults e (Insert ''audit_logs'' (audit_row act et (jstr_or_null ei) ov nv (JStr a)
            (jstr_or_null ip) (jstr_or_null ua))) = NoFault
       then (tables w)(''audit_logs'' := tables w ''audit_logs'' @
              [audit_row act et (jstr_or_null ei) ov nv (JStr a) (jstr_or_null ip) (jstr_or_null ua)])
       else tables w)
   \<and> console (logAdminAction e a act et ei ov nv ip ua w) =
      (if faults e (Insert ''audit_logs'' (audit_row act et (jstr_or_null ei) ov nv (JStr a)
            (jstr_or_null ip) (jstr_or_null ua))) = Throws
       then console w @ [Err ''Error logging admin action:'']
       else console w)"
  by (simp add: logAdminAction_def insert_row_def Let_def world_fields split: fault.splits)

section \<open>Transitions of a transaction\<close>

lemma DELETE_transaction_completed:
  assumes "snd (select_single e ''escrow_transactions'' ''*'' tid w) = Data cur"
    and "cur ''status'' = Some (JStr ''completed'')"
  shows "tables (fst (DELETE_transaction e req tid w)) = tables w"
    and "auth req = Admin a \<Longrightarrow> snd (requireAdminPermission e a CANCEL_TRANSACTIONS w) \<Longrightarrow>
      snd (DELETE_transaction e req tid w) = json_error 400 ''Cannot cancel completed transaction''
      \<and> calls (fst (DELETE_transaction e req tid w)) =
          calls w @ [Select ''profiles'' ''role'' a, Select ''escrow_transactions'' ''*'' tid]"
proof -
  show "tables (fst (DELETE_transaction e req tid w)) = tables w"
  proof (cases "auth req")
    case (Rejected r)
    then show ?thesis by (simp add: DELETE_transaction_def)
  next
    case (Admin b)
    obtain w1 ok where p: "requireAdminPermission e b CANCEL_TRANSACTIONS w = (w1, ok)"
      by (cases "requireAdminPermission e b CANCEL_TRANSACTIONS w")
    then have t1: "tables w1 = tables w"
      using requireAdminPermission_world by blast
    obtain w2 res where s: "select_single e ''escrow_transactions'' ''*'' tid w1 = (w2, res)"
      by (cases "select_single e ''escrow_transactions'' ''*'' tid w1")
    then have w2: "w2 = record_call (Select ''escrow_transactions'' ''*'' tid) w1"
      by (rule select_single_world)
    have "res = Data cur"
      using s snd_select_single_tables [OF t1, of e "''escrow_transactions''" "''*''" tid] assms(1)
      by simp
    with Admin p s w2 t1 assms(2) show ?thesis
      by (cases ok) (simp_all add: DELETE_transaction_def world_fields)
  qed
next
  assume a: "auth req = Admin a" and ok: "snd (requireAdminPermission e a CANCEL_TRANSACTIONS w)"
  obtain w1 where p: "requireAdminPermission e a CANCEL_TRANSACTIONS w = (w1, True)"
    using ok by (cases "requireAdminPermission e a CANCEL_TRANSACTIONS w") simp
  then have t1: "tables w1 = tables w \<and> calls w1 = calls w @ [Select ''profiles'' ''role'' a]"
    using requireAdminPermission_world by blast
  obtain w2 res where s: "select_single e ''escrow_transactions'' ''*'' tid w1 = (w2, res)"
    by (cases "select_single e ''escrow_transactions'' ''*'' tid w1")
  then have w2: "w2 = record_call (Select ''escrow_transactions'' ''*'' tid) w1"
    by (rule select_single_world)
  have "res = Data cur"
    using s snd_select_single_tables [of w1 w e "''escrow_transactions''" "''*''" tid] t1 assms(1)
    by simp
  with a p s w2 t1 assms(2)
  show "snd (DELETE_transaction e req tid w) = json_error 400 ''Cannot cancel completed transaction''
      \<and> calls (fst (DELETE_transaction e req tid w)) =
          calls w @ [Select ''profiles'' ''role'' a, Select ''escrow_transactions'' ''*'' tid]"
    by (simp add: DELETE_transaction_def world_fields)
qed

text \<open>
  C1, as the code has it. There is no transition table: the update handler stores
  whatever status the payload carries. What the code does enforce is that a cancel request
  (the DELETE handler) on a transaction whose status is \<open>completed\<close> changes no table,
  whoever asks; for an actor who passes the permission check, the role \<open>admin\<close>
  included, the answer is the 400 error "Cannot cancel completed transaction" and no
  update and no audit insert is issued.
\<close>

theorem cancel_of_completed_is_rejected:
  assumes "snd (select_single e ''escrow_transactions'' ''*'' tid w) = Data cur"
    and "cur ''status'' = Some (JStr ''completed'')"
  shows "tables (fst (DELETE_transaction e req tid w)) = tables w
    \<and> (auth req = Admin a \<and> snd (requireAdminPermission e a CANCEL_TRANSACTIONS w) \<longrightarrow>
      snd (DELETE_transaction e req tid w) = json_error 400 ''Cannot cancel completed transaction''
      \<and> calls (fst (DELETE_transaction e req tid w)) =
          calls w @ [Select ''profiles'' ''role'' a, Select ''escrow_transactions'' ''*'' tid])"
  using DELETE_transaction_completed [OF assms] by blast

theorem cancel_of_completed_is_rejected_witness:
  "tables (fst (DELETE_transaction example_env (example_request ''u1'' None) ''t1'' example_world)) =
      tables example_world
   \<and> snd (DELETE_transaction example_env (example_request ''u1'' None) ''t1'' example_world) =
      json_error 400 ''Cannot cancel completed transaction''"
proof -
  have s: "snd (select_single example_env ''escrow_transactions'' ''*'' ''t1'' example_world) =
      Data (transaction_row ''t1'' ''completed'')"
    by (simp add: select_single_def example_env_def example_world_def example_tables_def
      transaction_row_def matches_def project_def Let_def)
  have c: "transaction_row ''t1'' ''completed'' ''status'' = Some (JStr ''completed'')"
    by (simp add: transaction_row_def)
  have a: "auth (example_request ''u1'' None) = Admin ''u1''"
    by (simp add: example_request_def)
  have p: "snd (requireAdminPermission example_env ''u1'' CANCEL_TRANSACTIONS example_world)"
    by (simp add: run_defs)
  from cancel_of_completed_is_rejected [OF s c, of "example_request ''u1'' None" "''u1''"] a p
  show ?thesis by blast
qed

text \<open>
  C1, where it fails. The update handler on the completed transaction \<open>t1\<close>, asked by the admin \<open>u1\<close> to
  set the status to \<open>pending\<close>: the answer is 200 and the status is stored.
\<close>

theorem update_leaves_terminal_status:
  "snd (PUT_transaction example_env (example_request ''u1'' (Some [''status'' \<mapsto> JStr ''pending'']))
         ''t1'' example_world) =
     Response 200 (JObj (transaction_row ''t1'' ''completed'' ++
        [''status'' \<mapsto> JStr ''pending'', ''updated_at'' \<mapsto> JStr ''2024-01-01T00:00:00.000Z'']))
   \<and> map (\<lambda>r. (r ''id'', r ''status''))
       (tables example_world ''escrow_transactions'') =
     [(Some (JStr ''t1''), Some (JStr ''completed'')), (Some (JStr ''t2''), Some (JStr ''pending''))]
   \<and> map (\<lambda>r. (r ''id'', r ''status''))
       (tables (fst (PUT_transaction example_env
          (example_request ''u1'' (Some [''status'' \<mapsto> JStr ''pending''])) ''t1'' example_world))
        ''escrow_transactions'') =
     [(Some (JStr ''t1''), Some (JStr ''pending'')), (Some (JStr ''t2''), Some (JStr ''pending''))]"
  by (simp add: run_defs)

section \<open>The handlers on their successful path\<close>

lemma select_single_Data:
  "snd (select_single e t ''*'' i w) = Data cur \<longleftrightarrow>
     faults e (Select t ''*'' i) = NoFault \<and> filter (matches i) (tables w t) = [cur]"
  by (auto simp add: select_single_def Let_def project_def split: fault.splits list.splits)

lemma requireAdminPermission_True:
  assumes "requireAdminPermission e a p w = (w1, True)"
  shows "w1 = record_call (Select ''profiles'' ''role'' a) w"
proof (cases "select_single e ''profiles'' ''role'' a w")
  case (Pair w0 res)
  then have w0: "w0 = record_call (Select ''profiles'' ''role'' a) w"
    by (rule select_single_world)
  show ?thesis
    using assms Pair w0
    by (cases res)
      (auto simp add: requireAdminPermission_def hasAdminPermission_def hasAdminPermission_in_def
        split: if_splits option.splits jval.splits)
qed

lemma update_single_NoFault:
  assumes "faults e (Update t i upd) = NoFault" and "filter (matches i) (tables w t) = [cur]"
  shows "update_single e t i upd w =
    ((record_call (Update t i upd) w)
        \<lparr>tables := (tables w)(t := map (\<lambda>x. if matches i x then x ++ upd else x) (tables w t))\<rparr>,
     Data (cur ++ upd))"
  using assms by (simp add: update_single_def Let_def)

lemma PUT_transaction_persisted:
  assumes a: "auth req = Admin a"
    and ok: "snd (requireAdminPermission e a EDIT_TRANSACTIONS w)"
    and b: "body req = Some upd"
    and s: "snd (select_single e ''escrow_transactions'' ''*'' tid w) = Data cur"
    and u: "faults e (Update ''escrow_transactions'' tid (upd(''updated_at'' \<mapsto> JStr (now e)))) = NoFault"
  defines "new \<equiv> cur ++ upd(''updated_at'' \<mapsto> JStr (now e))"
  defines "entry \<equiv> audit_row ''UPDATE_TRANSACTION'' ''transaction'' (JStr tid) (JObj cur) (JObj new)
      (JStr a) (jstr_or_null (ip_or_null req)) (jstr_or_null (agent_or_null req))"
  shows "snd (PUT_transaction e req tid w) = Response 200 (JObj new)"
    and "calls (fst (PUT_transaction e req tid w)) =
      calls w @ [Select ''profiles'' ''role'' a, Select ''escrow_transactions'' ''*'' tid,
        Update ''escrow_transactions'' tid (upd(''updated_at'' \<mapsto> JStr (now e))),
        Insert ''audit_logs'' entry]"
    and "tables (fst (PUT_transaction e req tid w)) ''escrow_transactions'' =
      map (\<lambda>x. if matches tid x then x ++ upd(''updated_at'' \<mapsto> JStr (now e)) else x)
        (tables w ''escrow_transactions'')"
    and "tables (fst (PUT_transaction e req tid w)) ''audit_logs'' =
      (if faults e (Insert ''audit_logs'' entry) = NoFault
       then tables w ''audit_logs'' @ [entry] else tables w ''audit_logs'')"
    and "console (fst (PUT_transaction e req tid w)) =
      (if faults e (Insert ''audit_logs'' entry) = Throws
       then console w @ [Err ''Error logging admin action:''] else console w)"
proof -
  obtain w1 where p: "requireAdminPermission e a EDIT_TRANSACTIONS w = (w1, True)"
    using ok by (cases "requireAdminPermission e a EDIT_TRANSACTIONS w") simp
  then have w1: "w1 = record_call (Select ''profiles'' ''role'' a) w"
    by (rule requireAdminPermission_True)
  have s1: "select_single e ''escrow_transactions'' ''*'' tid w1 =
      (record_call (Select ''escrow_transactions'' ''*'' tid) w1, Data cur)"
    using s snd_select_single_tables [of w1 w e "''escrow_transactions''" "''*''" tid]
      fst_select_single [of e "''escrow_transactions''" "''*''" tid w1] w1
    by (cases "select_single e ''escrow_transactions'' ''*'' tid w1") (simp add: world_fields)
  from s have f: "filter (matches tid) (tables w ''escrow_transactions'') = [cur]"
    by (simp add: select_single_Data)
  have u1: "update_single e ''escrow_transactions'' tid (upd(''updated_at'' \<mapsto> JStr (now e)))
      (record_call (Select ''escrow_transactions'' ''*'' tid) w1) =
    ((record_call (Update ''escrow_transactions'' tid (upd(''updated_at'' \<mapsto> JStr (now e))))
        (record_call (Select ''escrow_transactions'' ''*'' tid) w1))
        \<lparr>tables := (tables w)(''escrow_transactions'' :=
            map (\<lambda>x. if matches tid x then x ++ upd(''updated_at'' \<mapsto> JStr (now e)) else x)
              (tables w ''escrow_transactions''))\<rparr>,
     Data new)"
    using update_single_NoFault [OF u, of "record_call (Select ''escrow_transactions'' ''*'' tid) w1" cur] f w1
    by (simp add: world_fields new_def)
  have R: "PUT_transaction e req tid w =
    (logAdminAction e a ''UPDATE_TRANSACTION'' ''transaction'' (Some tid) (JObj cur) (JObj new)
        (ip_or_null req) (agent_or_null req)
        ((record_call (Update ''escrow_transactions'' tid (upd(''updated_at'' \<mapsto> JStr (now e))))
        (record_call (Select ''escrow_transactions'' ''*'' tid) w1))
        \<lparr>tables := (tables w)(''escrow_transactions'' :=
            map (\<lambda>x. if matches tid x then x ++ upd(''updated_at'' \<mapsto> JStr (now e)) else x)
              (tables w ''escrow_transactions''))\<rparr>),
     Response 200 (JObj new))"
    using a p b s1 u1 by (simp add: PUT_transaction_def)
  show "snd (PUT_transaction e req tid w) = Response 200 (JObj new)"
    by (simp add: R)
  show "calls (fst (PUT_transaction e req tid w)) =
      calls w @ [Select ''profiles'' ''role'' a, Select ''escrow_transactions'' ''*'' tid,
        Update ''escrow_transactions'' tid (upd(''updated_at'' \<mapsto> JStr (now e))),
        Insert ''audit_logs'' entry]"
    by (simp add: R logAdminAction_world world_fields w1 entry_def jstr_or_null_def)
  show "tables (fst (PUT_transaction e req tid w)) ''escrow_transactions'' =
      map (\<lambda>x. if matches tid x then x ++ upd(''updated_at'' \<mapsto> JStr (now e)) else x)
        (tables w ''escrow_transactions'')"
    by (simp add: R logAdminAction_world)
  show "tables (fst (PUT_transaction e req tid w)) ''audit_logs'' =
      (if faults e (Insert ''audit_logs'' entry) = NoFault
       then tables w ''audit_logs'' @ [entry] else tables w ''audit_logs'')"
    by (simp add: R logAdminAction_world entry_def jstr_or_null_def)
  show "console (fst (PUT_transaction e req tid w)) =
      (if faults e (Insert ''audit_logs'' entry) = Throws
       then console w @ [Err ''Error logging admin action:''] else console w)"
    by (simp add: R logAdminAction_world world_fields w1 entry_def jstr_or_null_def)
qed

lemma PUT_transaction_unchanged_or_persisted:
  "tables (fst (PUT_transaction e req tid w)) = tables w
   \<or> (\<exists>a upd cur. auth req = Admin a \<and> snd (requireAdminPermission e a EDIT_TRANSACTIONS w)
        \<and> body req = Some upd
        \<and> snd (select_single e ''escrow_transactions'' ''*'' tid w) = Data cur
        \<and> faults e (Update ''escrow_transactions'' tid (upd(''updated_at'' \<mapsto> JStr (now e)))) = NoFault)"
proof (cases "auth req")
  case (Rejected r)
  then show ?thesis by (simp add: PUT_transaction_def)
next
  case (Admin a)
  obtain w1 ok where p: "requireAdminPermission e a EDIT_TRANSACTIONS w = (w1, ok)"
    by (cases "requireAdminPermission e a EDIT_TRANSACTIONS w")
  then have t1: "tables w1 = tables w" and okv: "ok = snd (requireAdminPermission e a EDIT_TRANSACTIONS w)"
    using requireAdminPermission_world by auto
  show ?thesis
  proof (cases "ok \<and> body req \<noteq> None")
    case False
    with Admin p t1 show ?thesis
      by (cases ok) (auto simp add: PUT_transaction_def)
  next
    case True
    then obtain upd where b: "body req = Some upd" and ok: "ok" by auto
    obtain w2 res where s: "select_single e ''escrow_transactions'' ''*'' tid w1 = (w2, res)"
      by (cases "select_single e ''escrow_transactions'' ''*'' tid w1")
    then have w2: "tables w2 = tables w"
      using select_single_world [OF s] t1 by (simp add: world_fields)
    have res: "res = snd (select_single e ''escrow_transactions'' ''*'' tid w)"
      using s snd_select_single_tables [OF t1, of e "''escrow_transactions''" "''*''" tid] by simp
    obtain w3 res3 where u: "update_single e ''escrow_transactions'' tid
        (upd(''updated_at'' \<mapsto> JStr (now e))) w2 = (w3, res3)"
      by (cases "update_single e ''escrow_transactions'' tid (upd(''updated_at'' \<mapsto> JStr (now e))) w2")
    note uw = update_single_world [OF u]
    show ?thesis
    proof (cases res)
      case (Data cur)
      show ?thesis
      proof (cases res3)
        case (Data d)
        with uw have "faults e (Update ''escrow_transactions'' tid (upd(''updated_at'' \<mapsto> JStr (now e)))) = NoFault"
          by simp
        moreover have "snd (select_single e ''escrow_transactions'' ''*'' tid w) = Data cur"
          using res \<open>res = Data cur\<close> by simp
        ultimately show ?thesis using Admin ok okv b by blast
      next
        case (Error m)
        with uw w2 Admin p ok b s \<open>res = Data cur\<close> u show ?thesis
          by (simp add: PUT_transaction_def)
      next
        case Thrown
        with uw w2 Admin p ok b s \<open>res = Data cur\<close> u show ?thesis
          by (simp add: PUT_transaction_def)
      qed
    next
      case (Error m)
      with Admin p ok b s w2 show ?thesis by (simp add: PUT_transaction_def)
    next
      case Thrown
      with Admin p ok b s w2 show ?thesis by (simp add: PUT_transaction_def)
    qed
  qed
qed

lemma insert_row_eq:
  "insert_row e t r w =
     ((record_call (Insert t r) w)
        \<lparr>tables := (if faults e (Insert t r) = NoFault then (tables w)(t := tables w t @ [r])
                    else tables w)\<rparr>,
      (case faults e (Insert t r) of NoFault \<Rightarrow> Data () | ErrorResult m \<Rightarrow> Error m | Throws \<Rightarrow> Thrown))"
  by (simp add: insert_row_def Let_def record_call_def split: fault.splits)

lemma PUT_user_persisted:
  assumes a: "auth req = Admin adm"
    and us: "user req = Some u"
    and b: "body req = Some upd"
    and s: "snd (select_single e ''profiles'' ''*'' uid w) = Data cur"
    and g: "\<not> (u = uid \<and> truthy (upd ''role'') \<and> upd ''role'' \<noteq> Some (JStr ''admin''))"
    and up: "faults e (Update ''profiles'' uid (upd(''updated_at'' \<mapsto> JStr (now e)))) = NoFault"
  defines "new \<equiv> cur ++ upd(''updated_at'' \<mapsto> JStr (now e))"
  defines "entry \<equiv> audit_row ''UPDATE_USER'' ''user'' (JStr uid) (JObj cur) (JObj new)
      (JStr u) (jstr_or_null (ip_or_unknown req)) (jstr_or_null (agent_or_unknown req))"
  shows "snd (PUT_user e req uid w) =
      (if faults e (Insert ''audit_logs'' entry) = Throws
       then json_error 400 ''Invalid request data'' else Response 200 (JObj new))"
    and "calls (fst (PUT_user e req uid w)) =
      calls w @ [Select ''profiles'' ''*'' uid,
        Update ''profiles'' uid (upd(''updated_at'' \<mapsto> JStr (now e))),
        Insert ''audit_logs'' entry]"
    and "tables (fst (PUT_user e req uid w)) ''profiles'' =
      map (\<lambda>x. if matches uid x then x ++ upd(''updated_at'' \<mapsto> JStr (now e)) else x)
        (tables w ''profiles'')"
    and "tables (fst (PUT_user e req uid w)) ''audit_logs'' =
      (if faults e (Insert ''audit_logs'' entry) = NoFault
       then tables w ''audit_logs'' @ [entry] else tables w ''audit_logs'')"
proof -
  have s1: "select_single e ''profiles'' ''*'' uid w =
      (record_call (Select ''profiles'' ''*'' uid) w, Data cur)"
    using s fst_select_single [of e "''profiles''" "''*''" uid w]
    by (cases "select_single e ''profiles'' ''*'' uid w") simp
  from s have f: "filter (matches uid) (tables w ''profiles'') = [cur]"
    by (simp add: select_single_Data)
  have u1: "update_single e ''profiles'' uid (upd(''updated_at'' \<mapsto> JStr (now e)))
      (record_call (Select ''profiles'' ''*'' uid) w) =
    ((record_call (Update ''profiles'' uid (upd(''updated_at'' \<mapsto> JStr (now e))))
        (record_call (Select ''profiles'' ''*'' uid) w))
        \<lparr>tables := (tables w)(''profiles'' :=
            map (\<lambda>x. if matches uid x then x ++ upd(''updated_at'' \<mapsto> JStr (now e)) else x)
              (tables w ''profiles''))\<rparr>,
     Data new)"
    using update_single_NoFault [OF up, of "record_call (Select ''profiles'' ''*'' uid) w" cur] f
    by (simp add: world_fields new_def)
  have R: "PUT_user e req uid w =
    (case insert_row e ''audit_logs'' entry
        ((record_call (Update ''profiles'' uid (upd(''updated_at'' \<mapsto> JStr (now e))))
        (record_call (Select ''profiles'' ''*'' uid) w))
        \<lparr>tables := (tables w)(''profiles'' :=
            map (\<lambda>x. if matches uid x then x ++ upd(''updated_at'' \<mapsto> JStr (now e)) else x)
              (tables w ''profiles''))\<rparr>) of
       (w3, Thrown) \<Rightarrow> (w3, json_error 400 ''Invalid request data'')
     | (w3, _) \<Rightarrow> (w3, Response 200 (JObj new)))"
    using a us b s1 u1 g by (auto simp add: PUT_user_def entry_def)
  show "snd (PUT_user e req uid w) =
      (if faults e (Insert ''audit_logs'' entry) = Throws
       then json_error 400 ''Invalid request data'' else Response 200 (JObj new))"
    by (simp add: R insert_row_eq split: fault.splits)
  show "calls (fst (PUT_user e req uid w)) =
      calls w @ [Select ''profiles'' ''*'' uid,
        Update ''profiles'' uid (upd(''updated_at'' \<mapsto> JStr (now e))),
        Insert ''audit_logs'' entry]"
    by (simp add: R insert_row_eq world_fields split: fault.splits)
  show "tables (fst (PUT_user e req uid w)) ''profiles'' =
      map (\<lambda>x. if matches uid x then x ++ upd(''updated_at'' \<mapsto> JStr (now e)) else x)
        (tables w ''profiles'')"
    by (simp add: R insert_row_eq world_fields split: fault.splits)
  show "tables (fst (PUT_user e req uid w)) ''audit_logs'' =
      (if faults e (Insert ''audit_logs'' entry) = NoFault
       then tables w ''audit_logs'' @ [entry] else tables w ''audit_logs'')"
    by (simp add: R insert_row_eq world_fields split: fault.splits)
qed

lemma PUT_user_unchanged_or_persisted:
  "tables (fst (PUT_user e req uid w)) = tables w
   \<or> (\<exists>adm u upd cur. auth req = Admin adm \<and> user req = Some u \<and> body req = Some upd
        \<and> snd (select_single e ''profiles'' ''*'' uid w) = Data cur
        \<and> \<not> (u = uid \<and> truthy (upd ''role'') \<and> upd ''role'' \<noteq> Some (JStr ''admin''))
        \<and> faults e (Update ''profiles'' uid (upd(''updated_at'' \<mapsto> JStr (now e)))) = NoFault)"
proof (cases "\<exists>adm u upd. auth req = Admin adm \<and> user req = Some u \<and> body req = Some upd")
  case False
  then show ?thesis
    by (auto simp add: PUT_user_def split: auth_result.splits option.splits)
next
  case True
  then obtain adm u upd where a: "auth req = Admin adm" and us: "user req = Some u"
    and b: "body req = Some upd" by blast
  obtain w1 res where s: "select_single e ''profiles'' ''*'' uid w = (w1, res)"
    by (cases "select_single e ''profiles'' ''*'' uid w")
  then have w1: "tables w1 = tables w"
    using select_single_world [OF s] by (simp add: world_fields)
  obtain w2 res2 where u: "update_single e ''profiles'' uid
      (upd(''updated_at'' \<mapsto> JStr (now e))) w1 = (w2, res2)"
    by (cases "update_single e ''profiles'' uid (upd(''updated_at'' \<mapsto> JStr (now e))) w1")
  note uw = update_single_world [OF u]
  show ?thesis
  proof (cases res)
    case (Data cur)
    show ?thesis
    proof (cases "u = uid \<and> truthy (upd ''role'') \<and> upd ''role'' \<noteq> Some (JStr ''admin'')")
      case True
      with a us b s Data w1 show ?thesis by (simp add: PUT_user_def)
    next
      case False
      show ?thesis
      proof (cases res2)
        case (Data d)
        with uw have "faults e (Update ''profiles'' uid (upd(''updated_at'' \<mapsto> JStr (now e)))) = NoFault"
          by simp
        moreover have "snd (select_single e ''profiles'' ''*'' uid w) = Data cur"
          using s \<open>res = Data cur\<close> by simp
        ultimately show ?thesis using a us b False by blast
      next
        case (Error m)
        with uw w1 a us b s \<open>res = Data cur\<close> u False show ?thesis
          by (simp add: PUT_user_def)
      next
        case Thrown
        with uw w1 a us b s \<open>res = Data cur\<close> u False show ?thesis
          by (simp add: PUT_user_def)
      qed
    qed
  next
    case (Error m)
    with a us b s w1 show ?thesis by (simp add: PUT_user_def)
  next
    case Thrown
    with a us b s w1 show ?thesis by (simp add: PUT_user_def)
  qed
qed

lemma DELETE_transaction_persisted:
  assumes a: "auth req = Admin a"
    and ok: "snd (requireAdminPermission e a CANCEL_TRANSACTIONS w)"
    and s: "snd (select_single e ''escrow_transactions'' ''*'' tid w) = Data cur"
    and g: "cur ''status'' \<noteq> Some (JStr ''completed'')"
    and u: "faults e (Update ''escrow_transactions'' tid
        [''status'' \<mapsto> JStr ''cancelled'', ''updated_at'' \<mapsto> JStr (now e)]) = NoFault"
  defines "new \<equiv> cur ++ [''status'' \<mapsto> JStr ''cancelled'', ''updated_at'' \<mapsto> JStr (now e)]"
  defines "entry \<equiv> audit_row ''CANCEL_TRANSACTION'' ''transaction'' (JStr tid) (JObj cur) (JObj new)
      (JStr a) (jstr_or_null (ip_or_null req)) (jstr_or_null (agent_or_null req))"
  shows "snd (DELETE_transaction e req tid w) =
      Response 200 (JObj [''message'' \<mapsto> JStr ''Transaction cancelled successfully'',
                          ''transaction'' \<mapsto> JObj new])"
    and "calls (fst (DELETE_transaction e req tid w)) =
      calls w @ [Select ''profiles'' ''role'' a, Select ''escrow_transactions'' ''*'' tid,
        Update ''escrow_transactions'' tid
          [''status'' \<mapsto> JStr ''cancelled'', ''updated_at'' \<mapsto> JStr (now e)],
        Insert ''audit_logs'' entry]"
    and "tables (fst (DELETE_transaction e req tid w)) ''escrow_transactions'' =
      map (\<lambda>x. if matches tid x
                then x ++ [''status'' \<mapsto> JStr ''cancelled'', ''updated_at'' \<mapsto> JStr (now e)] else x)
        (tables w ''escrow_transactions'')"
    and "tables (fst (DELETE_transaction e req tid w)) ''audit_logs'' =
      (if faults e (Insert ''audit_logs'' entry) = NoFault
       then tables w ''audit_logs'' @ [entry] else tables w ''audit_logs'')"
    and "console (fst (DELETE_transaction e req tid w)) =
      (if faults e (Insert ''audit_logs'' entry) = Throws
       then console w @ [Err ''Error logging admin action:''] else console w)"
proof -
  obtain w1 where p: "requireAdminPermission e a CANCEL_TRANSACTIONS w = (w1, True)"
    using ok by (cases "requireAdminPermission e a CANCEL_TRANSACTIONS w") simp
  then have w1: "w1 = record_call (Select ''profiles'' ''role'' a) w"
    by (rule requireAdminPermission_True)
  have s1: "select_single e ''escrow_transactions'' ''*'' tid w1 =
      (record_call (Select ''escrow_transactions'' ''*'' tid) w1, Data cur)"
    using s snd_select_single_tables [of w1 w e "''escrow_transactions''" "''*''" tid]
      fst_select_single [of e "''escrow_transactions''" "''*''" tid w1] w1
    by (cases "select_single e ''escrow_transactions'' ''*'' tid w1") (simp add: world_fields)
  from s have f: "filter (matches tid) (tables w ''escrow_transactions'') = [cur]"
    by (simp add: select_single_Data)
  have u1: "update_single e ''escrow_transactions'' tid
      [''status'' \<mapsto> JStr ''cancelled'', ''updated_at'' \<mapsto> JStr (now e)]
      (record_call (Select ''escrow_transactions'' ''*'' tid) w1) =
    ((record_call (Update ''escrow_transactions'' tid
          [''status'' \<mapsto> JStr ''cancelled'', ''updated_at'' \<mapsto> JStr (now e)])
        (record_call (Select ''escrow_transactions'' ''*'' tid) w1))
        \<lparr>tables := (tables w)(''escrow_transactions'' :=
            map (\<lambda>x. if matches tid x
                then x ++ [''status'' \<mapsto> JStr ''cancelled'', ''updated_at'' \<mapsto> JStr (now e)] else x)
              (tables w ''escrow_transactions''))\<rparr>,
     Data new)"
    using update_single_NoFault [OF u, of "record_call (Select ''escrow_transactions'' ''*'' tid) w1" cur] f w1
    by (simp add: world_fields new_def)
  have R: "DELETE_transaction e req tid w =
    (logAdminAction e a ''CANCEL_TRANSACTION'' ''transaction'' (Some tid) (JObj cur) (JObj new)
        (ip_or_null req) (agent_or_null req)
        ((record_call (Update ''escrow_transactions'' tid
          [''status'' \<mapsto> JStr ''cancelled'', ''updated_at'' \<mapsto> JStr (now e)])
        (record_call (Select ''escrow_transactions'' ''*'' tid) w1))
        \<lparr>tables := (tables w)(''escrow_transactions'' :=
            map (\<lambda>x. if matches tid x
                then x ++ [''status'' \<mapsto> JStr ''cancelled'', ''updated_at'' \<mapsto> JStr (now e)] else x)
              (tables w ''escrow_transactions''))\<rparr>),
     Response 200 (JObj [''message'' \<mapsto> JStr ''Transaction cancelled successfully'',
                          ''transaction'' \<mapsto> JObj new]))"
    using a p g s1 u1 by (simp add: DELETE_transaction_def)
  show "snd (DELETE_transaction e req tid w) =
      Response 200 (JObj [''message'' \<mapsto> JStr ''Transaction cancelled successfully'',
                          ''transaction'' \<mapsto> JObj new])"
    by (simp add: R)
  show "calls (fst (DELETE_transaction e req tid w)) =
      calls w @ [Select ''profiles'' ''role'' a, Select ''escrow_transactions'' ''*'' tid,
        Update ''escrow_transactions'' tid
          [''status'' \<mapsto> JStr ''cancelled'', ''updated_at'' \<mapsto> JStr (now e)],
        Insert ''audit_logs'' entry]"
    by (simp add: R logAdminAction_world world_fields w1 entry_def jstr_or_null_def)
  show "tables (fst (DELETE_transaction e req tid w)) ''escrow_transactions'' =
      map (\<lambda>x. if matches tid x
                then x ++ [''status'' \<mapsto> JStr ''cancelled'', ''updated_at'' \<mapsto> JStr (now e)] else x)
        (tables w ''escrow_transactions'')"
    by (simp add: R logAdminAction_world)
  show "tables (fst (DELETE_transaction e req tid w)) ''audit_logs'' =
      (if faults e (Insert ''audit_logs'' entry) = NoFault
       then tables w ''audit_logs'' @ [entry] else tables w ''audit_logs'')"
    by (simp add: R logAdminAction_world entry_def jstr_or_null_def)
  show "console (fst (DELETE_transaction e req tid w)) =
      (if faults e (Insert ''audit_logs'' entry) = Throws
       then console w @ [Err ''Error logging admin action:''] else console w)"
    by (simp add: R logAdminAction_world world_fields w1 entry_def jstr_or_null_def)
qed

lemma updated_row_in_table:
  assumes "filter (matches i) rows = [cur]"
  shows "cur \<in> set rows \<and> cur ++ upd \<in> set (map (\<lambda>x. if matches i x then x ++ upd else x) rows)"
proof -
  have "cur \<in> set (filter (matches i) rows)" using assms by simp
  then have "cur \<in> set rows \<and> matches i cur" by simp
  then show ?thesis by force
qed

lemma delete_rows_eq:
  "delete_rows e t i w =
     ((record_call (Delete t i) w)
        \<lparr>tables := (if faults e (Delete t i) = NoFault
                    then (tables w)(t := filter (\<lambda>x. \<not> matches i x) (tables w t))
                    else tables w)\<rparr>,
      (case faults e (Delete t i) of NoFault \<Rightarrow> Data () | ErrorResult m \<Rightarrow> Error m | Throws \<Rightarrow> Thrown))"
  by (simp add: delete_rows_def Let_def record_call_def split: fault.splits)

lemma DELETE_transaction_unchanged_or_persisted:
  "tables (fst (DELETE_transaction e req tid w)) = tables w
   \<or> (\<exists>a cur. auth req = Admin a \<and> snd (requireAdminPermission e a CANCEL_TRANSACTIONS w)
        \<and> snd (select_single e ''escrow_transactions'' ''*'' tid w) = Data cur
        \<and> cur ''status'' \<noteq> Some (JStr ''completed'')
        \<and> faults e (Update ''escrow_transactions'' tid
              [''status'' \<mapsto> JStr ''cancelled'', ''updated_at'' \<mapsto> JStr (now e)]) = NoFault)"
proof (cases "auth req")
  case (Rejected r)
  then show ?thesis by (simp add: DELETE_transaction_def)
next
  case (Admin a)
  obtain w1 ok where p: "requireAdminPermission e a CANCEL_TRANSACTIONS w = (w1, ok)"
    by (cases "requireAdminPermission e a CANCEL_TRANSACTIONS w")
  then have t1: "tables w1 = tables w"
    and okv: "ok = snd (requireAdminPermission e a CANCEL_TRANSACTIONS w)"
    using requireAdminPermission_world by auto
  show ?thesis
  proof (cases ok)
    case False
    with Admin p t1 show ?thesis
      by (simp add: DELETE_transaction_def)
  next
    case True
    obtain w2 res where s: "select_single e ''escrow_transactions'' ''*'' tid w1 = (w2, res)"
      by (cases "select_single e ''escrow_transactions'' ''*'' tid w1")
    then have w2: "tables w2 = tables w"
      using select_single_world [OF s] t1 by (simp add: world_fields)
    have res: "res = snd (select_single e ''escrow_transactions'' ''*'' tid w)"
      using s snd_select_single_tables [OF t1, of e "''escrow_transactions''" "''*''" tid] by simp
    obtain w3 res3 where u: "update_single e ''escrow_transactions'' tid
        [''status'' \<mapsto> JStr ''cancelled'', ''updated_at'' \<mapsto> JStr (now e)] w2 = (w3, res3)"
      by (cases "update_single e ''escrow_transactions'' tid
        [''status'' \<mapsto> JStr ''cancelled'', ''updated_at'' \<mapsto> JStr (now e)] w2")
    note uw = update_single_world [OF u]
    show ?thesis
    proof (cases res)
      case (Data cur)
      show ?thesis
      proof (cases "cur ''status'' = Some (JStr ''completed'')")
        case True
        with Admin p \<open>ok\<close> s Data w2 show ?thesis
          by (simp add: DELETE_transaction_def)
      next
        case False
        show ?thesis
        proof (cases res3)
          case (Data d)
          with uw have "faults e (Update ''escrow_transactions'' tid
              [''status'' \<mapsto> JStr ''cancelled'', ''updated_at'' \<mapsto> JStr (now e)]) = NoFault"
            by simp
          moreover have "snd (select_single e ''escrow_transactions'' ''*'' tid w) = Data cur"
            using res \<open>res = Data cur\<close> by simp
          ultimately show ?thesis using Admin \<open>ok\<close> okv False by blast
        next
          case (Error m)
          with uw w2 Admin p \<open>ok\<close> s \<open>res = Data cur\<close> u False show ?thesis
            by (simp add: DELETE_transaction_def)
        next
          case Thrown
          with uw w2 Admin p \<open>ok\<close> s \<open>res = Data cur\<close> u False show ?thesis
            by (simp add: DELETE_transaction_def)
        qed
      qed
    next
      case (Error m)
      with Admin p \<open>ok\<close> s w2 show ?thesis by (simp add: DELETE_transaction_def)
    next
      case Thrown
      with Admin p \<open>ok\<close> s w2 show ?thesis by (simp add: DELETE_transaction_def)
    qed
  qed
qed

lemma DELETE_user_persisted:
  assumes a: "auth req = Admin adm"
    and us: "user req = Some u"
    and n: "u \<noteq> uid"
    and s: "snd (select_single e ''profiles'' ''*'' uid w) = Data cur"
    and up: "faults e (Update ''profiles'' uid
        [''status'' \<mapsto> JStr ''inactive'', ''updated_at'' \<mapsto> JStr (now e)]) = NoFault"
  defines "new \<equiv> cur ++ [''status'' \<mapsto> JStr ''inactive'', ''updated_at'' \<mapsto> JStr (now e)]"
  defines "entry \<equiv> audit_row ''DEACTIVATE_USER'' ''user'' (JStr uid) (JObj cur) (JObj new)
      (JStr u) (jstr_or_null (ip_or_unknown req)) (jstr_or_null (agent_or_unknown req))"
  shows "snd (DELETE_user e req uid w) =
      (if faults e (Insert ''audit_logs'' entry) = Throws
       then json_error 500 ''Failed to deactivate user''
       else Response 200 (JObj [''message'' \<mapsto> JStr ''User deactivated successfully'',
                                ''user'' \<mapsto> JObj new]))"
    and "calls (fst (DELETE_user e req uid w)) =
      calls w @ [Select ''profiles'' ''*'' uid,
        Update ''profiles'' uid [''status'' \<mapsto> JStr ''inactive'', ''updated_at'' \<mapsto> JStr (now e)],
        Insert ''audit_logs'' entry]"
    and "tables (fst (DELETE_user e req uid w)) ''profiles'' =
      map (\<lambda>x. if matches uid x
                then x ++ [''status'' \<mapsto> JStr ''inactive'', ''updated_at'' \<mapsto> JStr (now e)] else x)
        (tables w ''profiles'')"
    and "tables (fst (DELETE_user e req uid w)) ''audit_logs'' =
      (if faults e (Insert ''audit_logs'' entry) = NoFault
       then tables w ''audit_logs'' @ [entry] else tables w ''audit_logs'')"
proof -
  have s1: "select_single e ''profiles'' ''*'' uid w =
      (record_call (Select ''profiles'' ''*'' uid) w, Data cur)"
    using s fst_select_single [of e "''profiles''" "''*''" uid w]
    by (cases "select_single e ''profiles'' ''*'' uid w") simp
  from s have f: "filter (matches uid) (tables w ''profiles'') = [cur]"
    by (simp add: select_single_Data)
  have u1: "update_single e ''profiles'' uid
      [''status'' \<mapsto> JStr ''inactive'', ''updated_at'' \<mapsto> JStr (now e)]
      (record_call (Select ''profiles'' ''*'' uid) w) =
    ((record_call (Update ''profiles'' uid
          [''status'' \<mapsto> JStr ''inactive'', ''updated_at'' \<mapsto> JStr (now e)])
        (record_call (Select ''profiles'' ''*'' uid) w))
        \<lparr>tables := (tables w)(''profiles'' :=
            map (\<lambda>x. if matches uid x
                then x ++ [''status'' \<mapsto> JStr ''inactive'', ''updated_at'' \<mapsto> JStr (now e)] else x)
              (tables w ''profiles''))\<rparr>,
     Data new)"
    using update_single_NoFault [OF up, of "record_call (Select ''profiles'' ''*'' uid) w" cur] f
    by (simp add: world_fields new_def)
  have R: "DELETE_user e req uid w =
    (case insert_row e ''audit_logs'' entry
        ((record_call (Update ''profiles'' uid
          [''status'' \<mapsto> JStr ''inactive'', ''updated_at'' \<mapsto> JStr (now e)])
        (record_call (Select ''profiles'' ''*'' uid) w))
        \<lparr>tables := (tables w)(''profiles'' :=
            map (\<lambda>x. if matches uid x
                then x ++ [''status'' \<mapsto> JStr ''inactive'', ''updated_at'' \<mapsto> JStr (now e)] else x)
              (tables w ''profiles''))\<rparr>) of
       (w3, Thrown) \<Rightarrow> (w3, json_error 500 ''Failed to deactivate user'')
     | (w3, _) \<Rightarrow> (w3, Response 200 (JObj [''message'' \<mapsto> JStr ''User deactivated successfully'',
                                ''user'' \<mapsto> JObj new])))"
    using a us n s1 u1 by (simp add: DELETE_user_def entry_def)
  show "snd (DELETE_user e req uid w) =
      (if faults e (Insert ''audit_logs'' entry) = Throws
       then json_error 500 ''Failed to deactivate user''
       else Response 200 (JObj [''message'' \<mapsto> JStr ''User deactivated successfully'',
                                ''user'' \<mapsto> JObj new]))"
    by (simp add: R insert_row_eq split: fault.splits)
  show "calls (fst (DELETE_user e req uid w)) =
      calls w @ [Select ''profiles'' ''*'' uid,
        Update ''profiles'' uid [''status'' \<mapsto> JStr ''inactive'', ''updated_at'' \<mapsto> JStr (now e)],
        Insert ''audit_logs'' entry]"
    by (simp add: R insert_row_eq world_fields split: fault.splits)
  show "tables (fst (DELETE_user e req uid w)) ''profiles'' =
      map (\<lambda>x. if matches uid x
                then x ++ [''status'' \<mapsto> JStr ''inactive'', ''updated_at'' \<mapsto> JStr (now e)] else x)
        (tables w ''profiles'')"
    by (simp add: R insert_row_eq world_fields split: fault.splits)
  show "tables (fst (DELETE_user e req uid w)) ''audit_logs'' =
      (if faults e (Insert ''audit_logs'' entry) = NoFault
       then tables w ''audit_logs'' @ [entry] else tables w ''audit_logs'')"
    by (simp add: R insert_row_eq world_fields split: fault.splits)
qed

lemma DELETE_user_unchanged_or_persisted:
  "tables (fst (DELETE_user e req uid w)) = tables w
   \<or> (\<exists>adm u cur. auth req = Admin adm \<and> user req = Some u \<and> u \<noteq> uid
        \<and> snd (select_single e ''profiles'' ''*'' uid w) = Data cur
        \<and> faults e (Update ''profiles'' uid
              [''status'' \<mapsto> JStr ''inactive'', ''updated_at'' \<mapsto> JStr (now e)]) = NoFault)"
proof (cases "\<exists>adm u. auth req = Admin adm \<and> user req = Some u \<and> u \<noteq> uid")
  case False
  then show ?thesis
    by (auto simp add: DELETE_user_def split: auth_result.splits option.splits)
next
  case True
  then obtain adm u where a: "auth req = Admin adm" and us: "user req = Some u" and n: "u \<noteq> uid"
    by blast
  obtain w1 res where s: "select_single e ''profiles'' ''*'' uid w = (w1, res)"
    by (cases "select_single e ''profiles'' ''*'' uid w")
  then have w1: "tables w1 = tables w"
    using select_single_world [OF s] by (simp add: world_fields)
  obtain w2 res2 where u: "update_single e ''profiles'' uid
      [''status'' \<mapsto> JStr ''inactive'', ''updated_at'' \<mapsto> JStr (now e)] w1 = (w2, res2)"
    by (cases "update_single e ''profiles'' uid
      [''status'' \<mapsto> JStr ''inactive'', ''updated_at'' \<mapsto> JStr (now e)] w1")
  note uw = update_single_world [OF u]
  show ?thesis
  proof (cases res)
    case (Data cur)
    show ?thesis
    proof (cases res2)
      case (Data d)
      with uw have "faults e (Update ''profiles'' uid
          [''status'' \<mapsto> JStr ''inactive'', ''updated_at'' \<mapsto> JStr (now e)]) = NoFault"
        by simp
      moreover have "snd (select_single e ''profiles'' ''*'' uid w) = Data cur"
        using s \<open>res = Data cur\<close> by simp
      ultimately show ?thesis using a us n by blast
    next
      case (Error m)
      with uw w1 a us n s \<open>res = Data cur\<close> u show ?thesis
        by (simp add: DELETE_user_def)
    next
      case Thrown
      with uw w1 a us n s \<open>res = Data cur\<close> u show ?thesis
        by (simp add: DELETE_user_def)
    qed
  next
    case (Error m)
    with a us n s w1 show ?thesis by (simp add: DELETE_user_def)
  next
    case Thrown
    with a us n s w1 show ?thesis by (simp add: DELETE_user_def)
  qed
qed

lemma PUT_data_persisted:
  assumes a: "auth req = Admin adm"
    and al: "table \<in> set allowedTables"
    and us: "user req = Some u"
    and b: "body req = Some upd"
    and s: "snd (select_single e table ''*'' rid w) = Data cur"
    and up: "faults e (Update table rid (finalUpdateData e upd)) = NoFault"
  defines "new \<equiv> cur ++ finalUpdateData e upd"
  defines "stored \<equiv> (tables w)(table :=
      map (\<lambda>x. if matches rid x then x ++ finalUpdateData e upd else x) (tables w table))"
  defines "entry \<equiv> audit_row (''UPDATE_'' @ toUpperCase (unicode_upper e) table) table (JStr rid)
      (JObj cur) (JObj new) (JStr u)
      (jstr_or_null (ip_or_unknown req)) (jstr_or_null (agent_or_unknown req))"
  shows "snd (PUT_data e req table rid w) =
      (if faults e (Insert ''audit_logs'' entry) = Throws
       then json_error 400 ''Invalid request data'' else Response 200 (JObj new))"
    and "calls (fst (PUT_data e req table rid w)) =
      calls w @ [Select table ''*'' rid, Update table rid (finalUpdateData e upd),
        Insert ''audit_logs'' entry]"
    and "tables (fst (PUT_data e req table rid w)) =
      (if faults e (Insert ''audit_logs'' entry) = NoFault
       then stored(''audit_logs'' := stored ''audit_logs'' @ [entry]) else stored)"
proof -
  have s1: "select_single e table ''*'' rid w = (record_call (Select table ''*'' rid) w, Data cur)"
    using s fst_select_single [of e table "''*''" rid w]
    by (cases "select_single e table ''*'' rid w") simp
  from s have f: "filter (matches rid) (tables w table) = [cur]"
    by (simp add: select_single_Data)
  have u1: "update_single e table rid (finalUpdateData e upd)
      (record_call (Select table ''*'' rid) w) =
    ((record_call (Update table rid (finalUpdateData e upd))
        (record_call (Select table ''*'' rid) w))\<lparr>tables := stored\<rparr>,
     Data new)"
    using update_single_NoFault [OF up, of "record_call (Select table ''*'' rid) w" cur] f
    by (simp add: world_fields new_def stored_def)
  have R: "PUT_data e req table rid w =
    (case insert_row e ''audit_logs'' entry
        ((record_call (Update table rid (finalUpdateData e upd))
          (record_call (Select table ''*'' rid) w))\<lparr>tables := stored\<rparr>) of
       (w3, Thrown) \<Rightarrow> (w3, json_error 400 ''Invalid request data'')
     | (w3, _) \<Rightarrow> (w3, Response 200 (JObj new)))"
    using a al us b s1 u1 by (simp add: PUT_data_def entry_def)
  show "snd (PUT_data e req table rid w) =
      (if faults e (Insert ''audit_logs'' entry) = Throws
       then json_error 400 ''Invalid request data'' else Response 200 (JObj new))"
    by (simp add: R insert_row_eq split: fault.splits)
  show "calls (fst (PUT_data e req table rid w)) =
      calls w @ [Select table ''*'' rid, Update table rid (finalUpdateData e upd),
        Insert ''audit_logs'' entry]"
    by (simp add: R insert_row_eq world_fields split: fault.splits)
  show "tables (fst (PUT_data e req table rid w)) =
      (if faults e (Insert ''audit_logs'' entry) = NoFault
       then stored(''audit_logs'' := stored ''audit_logs'' @ [entry]) else stored)"
    by (simp add: R insert_row_eq world_fields split: fault.splits)
qed

lemma PUT_data_unchanged_or_persisted:
  "tables (fst (PUT_data e req table rid w)) = tables w
   \<or> (\<exists>adm u upd cur. auth req = Admin adm \<and> table \<in> set allowedTables \<and> user req = Some u
        \<and> body req = Some upd
        \<and> snd (select_single e table ''*'' rid w) = Data cur
        \<and> faults e (Update table rid (finalUpdateData e upd)) = NoFault)"
proof (cases "\<exists>adm u upd. auth req = Admin adm \<and> table \<in> set allowedTables \<and> user req = Some u
    \<and> body req = Some upd")
  case False
  then show ?thesis
    by (auto simp add: PUT_data_def split: auth_result.splits option.splits)
next
  case True
  then obtain adm u upd where a: "auth req = Admin adm" and al: "table \<in> set allowedTables"
    and us: "user req = Some u" and b: "body req = Some upd" by blast
  obtain w1 res where s: "select_single e table ''*'' rid w = (w1, res)"
    by (cases "select_single e table ''*'' rid w")
  then have w1: "tables w1 = tables w"
    using select_single_world [OF s] by (simp add: world_fields)
  obtain w2 res2 where u: "update_single e table rid (finalUpdateData e upd) w1 = (w2, res2)"
    by (cases "update_single e table rid (finalUpdateData e upd) w1")
  note uw = update_single_world [OF u]
  show ?thesis
  proof (cases res)
    case (Data cur)
    show ?thesis
    proof (cases res2)
      case (Data d)
      with uw have "faults e (Update table rid (finalUpdateData e upd)) = NoFault"
        by simp
      moreover have "snd (select_single e table ''*'' rid w) = Data cur"
        using s \<open>res = Data cur\<close> by simp
      ultimately show ?thesis using a al us b by blast
    next
      case (Error m)
      with uw w1 a al us b s \<open>res = Data cur\<close> u show ?thesis
        by (simp add: PUT_data_def)
    next
      case Thrown
      with uw w1 a al us b s \<open>res = Data cur\<close> u show ?thesis
        by (simp add: PUT_data_def)
    qed
  next
    case (Error m)
    with a al us b s w1 show ?thesis by (simp add: PUT_data_def)
  next
    case Thrown
    with a al us b s w1 show ?thesis by (simp add: PUT_data_def)
  qed
qed

lemma DELETE_data_persisted:
  assumes a: "auth req = Admin adm"
    and al: "table \<in> set allowedTables"
    and us: "user req = Some u"
    and s: "snd (select_single e table ''*'' rid w) = Data cur"
    and d: "faults e (Delete table rid) = NoFault"
  defines "stored \<equiv> (tables w)(table := filter (\<lambda>x. \<not> matches rid x) (tables w table))"
  defines "entry \<equiv> audit_row (''DELETE_'' @ toUpperCase (unicode_upper e) table) table (JStr rid)
      (JObj cur) JNull (JStr u)
      (jstr_or_null (ip_or_unknown req)) (jstr_or_null (agent_or_unknown req))"
  shows "snd (DELETE_data e req table rid w) =
      (if faults e (Insert ''audit_logs'' entry) = Throws
       then json_error 500 ''Failed to delete row''
       else Response 200 (JObj [''message'' \<mapsto> JStr ''Row deleted successfully'']))"
    and "calls (fst (DELETE_data e req table rid w)) =
      calls w @ [Select table ''*'' rid, Delete table rid, Insert ''audit_logs'' entry]"
    and "tables (fst (DELETE_data e req table rid w)) =
      (if faults e (Insert ''audit_logs'' entry) = NoFault
       then stored(''audit_logs'' := stored ''audit_logs'' @ [entry]) else stored)"
proof -
  have s1: "select_single e table ''*'' rid w = (record_call (Select table ''*'' rid) w, Data cur)"
    using s fst_select_single [of e table "''*''" rid w]
    by (cases "select_single e table ''*'' rid w") simp
  have d1: "delete_rows e table rid (record_call (Select table ''*'' rid) w) =
    ((record_call (Delete table rid) (record_call (Select table ''*'' rid) w))\<lparr>tables := stored\<rparr>,
     Data ())"
    using d by (simp add: delete_rows_eq world_fields stored_def)
  have R: "DELETE_data e req table rid w =
    (case insert_row e ''audit_logs'' entry
        ((record_call (Delete table rid) (record_call (Select table ''*'' rid) w))
          \<lparr>tables := stored\<rparr>) of
       (w3, Thrown) \<Rightarrow> (w3, json_error 500 ''Failed to delete row'')
     | (w3, _) \<Rightarrow> (w3, Response 200 (JObj [''message'' \<mapsto> JStr ''Row deleted successfully''])))"
    using a al us s1 d1 by (simp add: DELETE_data_def entry_def)
  show "snd (DELETE_data e req table rid w) =
      (if faults e (Insert ''audit_logs'' entry) = Throws
       then json_error 500 ''Failed to delete row''
       else Response 200 (JObj [''message'' \<mapsto> JStr ''Row deleted successfully'']))"
    by (simp add: R insert_row_eq split: fault.splits)
  show "calls (fst (DELETE_data e req table rid w)) =
      calls w @ [Select table ''*'' rid, Delete table rid, Insert ''audit_logs'' entry]"
    by (simp add: R insert_row_eq world_fields split: fault.splits)
  show "tables (fst (DELETE_data e req table rid w)) =
      (if faults e (Insert ''audit_logs'' entry) = NoFault
       then stored(''audit_logs'' := stored ''audit_logs'' @ [entry]) else stored)"
    by (simp add: R insert_row_eq world_fields split: fault.splits)
qed

lemma DELETE_data_unchanged_or_persisted:
  "tables (fst (DELETE_data e req table rid w)) = tables w
   \<or> (\<exists>adm u cur. auth req = Admin adm \<and> table \<in> set allowedTables \<and> user req = Some u
        \<and> snd (select_single e table ''*'' rid w) = Data cur
        \<and> faults e (Delete table rid) = NoFault)"
proof (cases "\<exists>adm u. auth req = Admin adm \<and> table \<in> set allowedTables \<and> user req = Some u")
  case False
  then show ?thesis
    by (auto simp add: DELETE_data_def split: auth_result.splits option.splits)
next
  case True
  then obtain adm u where a: "auth req = Admin adm" and al: "table \<in> set allowedTables"
    and us: "user req = Some u" by blast
  obtain w1 res where s: "select_single e table ''*'' rid w = (w1, res)"
    by (cases "select_single e table ''*'' rid w")
  then have w1: "w1 = record_call (Select table ''*'' rid) w"
    by (rule select_single_world)
  show ?thesis
  proof (cases res)
    case (Data cur)
    show ?thesis
    proof (cases "faults e (Delete table rid) = NoFault")
      case True
      moreover have "snd (select_single e table ''*'' rid w) = Data cur"
        using s \<open>res = Data cur\<close> by simp
      ultimately show ?thesis using a al us by blast
    next
      case False
      with a al us s w1 \<open>res = Data cur\<close> show ?thesis
        by (cases "faults e (Delete table rid)")
          (simp_all add: DELETE_data_def delete_rows_eq world_fields)
    qed
  next
    case (Error m)
    with a al us s w1 show ?thesis by (simp add: DELETE_data_def world_fields)
  next
    case Thrown
    with a al us s w1 show ?thesis by (simp add: DELETE_data_def world_fields)
  qed
qed

lemma deleted_row_not_in_table:
  "filter (matches i) (filter (\<lambda>x. \<not> matches i x) rows) = []"
  by (induction rows) simp_all

section \<open>The audit trail of a mutation\<close>

text \<open>
  C3, as the code has it, for every mutation of the transactions, users and data routes:
  the update and the cancellation of a transaction, the update and the deactivation of a
  user, the update and the deletion of a row through the data route. When the mutation
  persists and the insert into \<open>audit_logs\<close> does not fail, exactly one row is appended to
  \<open>audit_logs\<close>; its \<open>old_value\<close> is the row read before the mutation, which is the
  row of the table, and its \<open>new_value\<close> is the row stored by the mutation (null for a
  deletion, after which no row with the identifier is left); the insert is the last storage
  call, right after the mutation, and the answer is the 200 response. In every other run
  that changes a table at all, the mutation has persisted: when a step before the mutation
  or the mutation itself fails, no table changes, so no audit row is written.
\<close>

theorem audit_row_of_persisted_mutation:
  fixes e :: env and req :: request and w :: world
  defines "stamped \<equiv> \<lambda>upd. upd(''updated_at'' \<mapsto> JStr (now e))"
  defines "cancelled \<equiv> [''status'' \<mapsto> JStr ''cancelled'', ''updated_at'' \<mapsto> JStr (now e)]"
  defines "inactive \<equiv> [''status'' \<mapsto> JStr ''inactive'', ''updated_at'' \<mapsto> JStr (now e)]"
  defines "logged \<equiv> \<lambda>act i a cur new. audit_row act ''transaction'' (JStr i) (JObj cur) (JObj new)
      (JStr a) (jstr_or_null (ip_or_null req)) (jstr_or_null (agent_or_null req))"
  defines "inline \<equiv> \<lambda>act et i u cur new. audit_row act et (JStr i) (JObj cur) new
      (JStr u) (jstr_or_null (ip_or_unknown req)) (jstr_or_null (agent_or_unknown req))"
  defines "read \<equiv> \<lambda>t i cur. snd (select_single e t ''*'' i w) = Data cur"
  defines "inserted \<equiv> \<lambda>entry. faults e (Insert ''audit_logs'' entry) = NoFault"
  defines "update_of_transaction \<equiv> \<lambda>i a cur upd. auth req = Admin a
      \<and> snd (requireAdminPermission e a EDIT_TRANSACTIONS w) \<and> body req = Some upd
      \<and> read ''escrow_transactions'' i cur
      \<and> faults e (Update ''escrow_transactions'' i (stamped upd)) = NoFault"
  defines "cancellation \<equiv> \<lambda>i a cur. auth req = Admin a
      \<and> snd (requireAdminPermission e a CANCEL_TRANSACTIONS w)
      \<and> read ''escrow_transactions'' i cur \<and> cur ''status'' \<noteq> Some (JStr ''completed'')
      \<and> faults e (Update ''escrow_transactions'' i cancelled) = NoFault"
  defines "update_of_user \<equiv> \<lambda>i a u cur upd. auth req = Admin a \<and> user req = Some u
      \<and> body req = Some upd \<and> read ''profiles'' i cur
      \<and> \<not> (u = i \<and> truthy (upd ''role'') \<and> upd ''role'' \<noteq> Some (JStr ''admin''))
      \<and> faults e (Update ''profiles'' i (stamped upd)) = NoFault"
  defines "deactivation \<equiv> \<lambda>i a u cur. auth req = Admin a \<and> user req = Some u \<and> u \<noteq> i
      \<and> read ''profiles'' i cur \<and> faults e (Update ''profiles'' i inactive) = NoFault"
  defines "update_of_row \<equiv> \<lambda>t i a u cur upd. auth req = Admin a \<and> t \<in> set allowedTables
      \<and> user req = Some u \<and> body req = Some upd \<and> read t i cur
      \<and> faults e (Update t i (finalUpdateData e upd)) = NoFault"
  defines "deletion \<equiv> \<lambda>t i a u cur. auth req = Admin a \<and> t \<in> set allowedTables
      \<and> user req = Some u \<and> read t i cur \<and> faults e (Delete t i) = NoFault"
  defines "updated \<equiv> \<lambda>t i upd. (tables w)(t :=
      map (\<lambda>x. if matches i x then x ++ finalUpdateData e upd else x) (tables w t))"
  defines "deleted \<equiv> \<lambda>t i. (tables w)(t := filter (\<lambda>x. \<not> matches i x) (tables w t))"
  shows
    "(update_of_transaction i a cur upd
        \<and> inserted (logged ''UPDATE_TRANSACTION'' i a cur (cur ++ stamped upd)) \<longrightarrow>
        tables (fst (PUT_transaction e req i w)) ''audit_logs'' =
          tables w ''audit_logs'' @ [logged ''UPDATE_TRANSACTION'' i a cur (cur ++ stamped upd)]
        \<and> cur \<in> set (tables w ''escrow_transactions'')
        \<and> cur ++ stamped upd \<in> set (tables (fst (PUT_transaction e req i w)) ''escrow_transactions'')
        \<and> snd (PUT_transaction e req i w) = Response 200 (JObj (cur ++ stamped upd))
        \<and> calls (fst (PUT_transaction e req i w)) =
            calls w @ [Select ''profiles'' ''role'' a, Select ''escrow_transactions'' ''*'' i,
              Update ''escrow_transactions'' i (stamped upd),
              Insert ''audit_logs'' (logged ''UPDATE_TRANSACTION'' i a cur (cur ++ stamped upd))])
     \<and> (tables (fst (PUT_transaction e req i w)) = tables w
          \<or> (\<exists>a cur upd. update_of_transaction i a cur upd))
     \<and> (cancellation i a cur
        \<and> inserted (logged ''CANCEL_TRANSACTION'' i a cur (cur ++ cancelled)) \<longrightarrow>
        tables (fst (DELETE_transaction e req i w)) ''audit_logs'' =
          tables w ''audit_logs'' @ [logged ''CANCEL_TRANSACTION'' i a cur (cur ++ cancelled)]
        \<and> cur \<in> set (tables w ''escrow_transactions'')
        \<and> cur ++ cancelled \<in> set (tables (fst (DELETE_transaction e req i w)) ''escrow_transactions'')
        \<and> snd (DELETE_transaction e req i w) =
            Response 200 (JObj [''message'' \<mapsto> JStr ''Transaction cancelled successfully'',
                                ''transaction'' \<mapsto> JObj (cur ++ cancelled)])
        \<and> calls (fst (DELETE_transaction e req i w)) =
            calls w @ [Select ''profiles'' ''role'' a, Select ''escrow_transactions'' ''*'' i,
              Update ''escrow_transactions'' i cancelled,
              Insert ''audit_logs'' (logged ''CANCEL_TRANSACTION'' i a cur (cur ++ cancelled))])
     \<and> (tables (fst (DELETE_transaction e req i w)) = tables w
          \<or> (\<exists>a cur. cancellation i a cur))
     \<and> (update_of_user i a u cur upd
        \<and> inserted (inline ''UPDATE_USER'' ''user'' i u cur (JObj (cur ++ stamped upd))) \<longrightarrow>
        tables (fst (PUT_user e req i w)) ''audit_logs'' =
          tables w ''audit_logs'' @ [inline ''UPDATE_USER'' ''user'' i u cur (JObj (cur ++ stamped upd))]
        \<and> cur \<in> set (tables w ''profiles'')
        \<and> cur ++ stamped upd \<in> set (tables (fst (PUT_user e req i w)) ''profiles'')
        \<and> snd (PUT_user e req i w) = Response 200 (JObj (cur ++ stamped upd))
        \<and> calls (fst (PUT_user e req i w)) =
            calls w @ [Select ''profiles'' ''*'' i, Update ''profiles'' i (stamped upd),
              Insert ''audit_logs'' (inline ''UPDATE_USER'' ''user'' i u cur (JObj (cur ++ stamped upd)))])
     \<and> (tables (fst (PUT_user e req i w)) = tables w
          \<or> (\<exists>a u cur upd. update_of_user i a u cur upd))
     \<and> (deactivation i a u cur
        \<and> inserted (inline ''DEACTIVATE_USER'' ''user'' i u cur (JObj (cur ++ inactive))) \<longrightarrow>
        tables (fst (DELETE_user e req i w)) ''audit_logs'' =
          tables w ''audit_logs'' @ [inline ''DEACTIVATE_USER'' ''user'' i u cur (JObj (cur ++ inactive))]
        \<and> cur \<in> set (tables w ''profiles'')
        \<and> cur ++ inactive \<in> set (tables (fst (DELETE_user e req i w)) ''profiles'')
        \<and> snd (DELETE_user e req i w) =
            Response 200 (JObj [''message'' \<mapsto> JStr ''User deactivated successfully'',
                                ''user'' \<mapsto> JObj (cur ++ inactive)])
        \<and> calls (fst (DELETE_user e req i w)) =
            calls w @ [Select ''profiles'' ''*'' i, Update ''profiles'' i inactive,
              Insert ''audit_logs'' (inline ''DEACTIVATE_USER'' ''user'' i u cur (JObj (cur ++ inactive)))])
     \<and> (tables (fst (DELETE_user e req i w)) = tables w
          \<or> (\<exists>a u cur. deactivation i a u cur))
     \<and> (update_of_row t i a u cur upd
        \<and> inserted (inline (''UPDATE_'' @ toUpperCase (unicode_upper e) t) t i u cur
              (JObj (cur ++ finalUpdateData e upd))) \<longrightarrow>
        tables (fst (PUT_data e req t i w)) =
          (updated t i upd)(''audit_logs'' := updated t i upd ''audit_logs'' @
             [inline (''UPDATE_'' @ toUpperCase (unicode_upper e) t) t i u cur
                (JObj (cur ++ finalUpdateData e upd))])
        \<and> cur \<in> set (tables w t)
        \<and> cur ++ finalUpdateData e upd \<in> set (updated t i upd t)
        \<and> snd (PUT_data e req t i w) = Response 200 (JObj (cur ++ finalUpdateData e upd))
        \<and> calls (fst (PUT_data e req t i w)) =
            calls w @ [Select t ''*'' i, Update t i (finalUpdateData e upd),
              Insert ''audit_logs'' (inline (''UPDATE_'' @ toUpperCase (unicode_upper e) t) t i u cur
                (JObj (cur ++ finalUpdateData e upd)))])
     \<and> (tables (fst (PUT_data e req t i w)) = tables w
          \<or> (\<exists>a u cur upd. update_of_row t i a u cur upd))
     \<and> (deletion t i a u cur
        \<and> inserted (inline (''DELETE_'' @ toUpperCase (unicode_upper e) t) t i u cur JNull) \<longrightarrow>
        tables (fst (DELETE_data e req t i w)) =
          (deleted t i)(''audit_logs'' := deleted t i ''audit_logs'' @
             [inline (''DELETE_'' @ toUpperCase (unicode_upper e) t) t i u cur JNull])
        \<and> cur \<in> set (tables w t)
        \<and> filter (matches i) (deleted t i t) = []
        \<and> snd (DELETE_data e req t i w) =
            Response 200 (JObj [''message'' \<mapsto> JStr ''Row deleted successfully''])
        \<and> calls (fst (DELETE_data e req t i w)) =
            calls w @ [Select t ''*'' i, Delete t i,
              Insert ''audit_logs'' (inline (''DELETE_'' @ toUpperCase (unicode_upper e) t) t i u cur
                JNull)])
     \<and> (tables (fst (DELETE_data e req t i w)) = tables w
          \<or> (\<exists>a u cur. deletion t i a u cur))"
proof (intro conjI impI)
  assume h: "update_of_transaction i a cur upd
        \<and> inserted (logged ''UPDATE_TRANSACTION'' i a cur (cur ++ stamped upd))"
  then have p: "auth req = Admin a" "snd (requireAdminPermission e a EDIT_TRANSACTIONS w)"
    "body req = Some upd" "snd (select_single e ''escrow_transactions'' ''*'' i w) = Data cur"
    "faults e (Update ''escrow_transactions'' i (upd(''updated_at'' \<mapsto> JStr (now e)))) = NoFault"
    by (simp_all add: update_of_transaction_def read_def stamped_def)
  note l = PUT_transaction_persisted [OF p]
  from h show "tables (fst (PUT_transaction e req i w)) ''audit_logs'' =
      tables w ''audit_logs'' @ [logged ''UPDATE_TRANSACTION'' i a cur (cur ++ stamped upd)]"
    by (simp add: l(4) inserted_def logged_def stamped_def)
  from p(4) have f: "filter (matches i) (tables w ''escrow_transactions'') = [cur]"
    by (simp add: select_single_Data)
  have m: "cur \<in> set (tables w ''escrow_transactions'') \<and>
      cur ++ upd(''updated_at'' \<mapsto> JStr (now e)) \<in>
        set (map (\<lambda>x. if matches i x then x ++ upd(''updated_at'' \<mapsto> JStr (now e)) else x)
          (tables w ''escrow_transactions''))"
    by (rule updated_row_in_table [OF f])
  show "cur \<in> set (tables w ''escrow_transactions'')"
    using m by blast
  show "cur ++ stamped upd \<in> set (tables (fst (PUT_transaction e req i w)) ''escrow_transactions'')"
    unfolding l(3) stamped_def using m by blast
  show "snd (PUT_transaction e req i w) = Response 200 (JObj (cur ++ stamped upd))"
    by (simp add: l(1) stamped_def)
  show "calls (fst (PUT_transaction e req i w)) =
      calls w @ [Select ''profiles'' ''role'' a, Select ''escrow_transactions'' ''*'' i,
        Update ''escrow_transactions'' i (stamped upd),
        Insert ''audit_logs'' (logged ''UPDATE_TRANSACTION'' i a cur (cur ++ stamped upd))]"
    by (simp add: l(2) logged_def stamped_def)
next
  show "tables (fst (PUT_transaction e req i w)) = tables w
      \<or> (\<exists>a cur upd. update_of_transaction i a cur upd)"
    using PUT_transaction_unchanged_or_persisted [of e req i w]
    unfolding update_of_transaction_def read_def stamped_def by blast
next
  assume h: "cancellation i a cur
        \<and> inserted (logged ''CANCEL_TRANSACTION'' i a cur (cur ++ cancelled))"
  then have p: "auth req = Admin a" "snd (requireAdminPermission e a CANCEL_TRANSACTIONS w)"
    "snd (select_single e ''escrow_transactions'' ''*'' i w) = Data cur"
    "cur ''status'' \<noteq> Some (JStr ''completed'')"
    "faults e (Update ''escrow_transactions'' i
        [''status'' \<mapsto> JStr ''cancelled'', ''updated_at'' \<mapsto> JStr (now e)]) = NoFault"
    by (simp_all add: cancellation_def read_def cancelled_def)
  note l = DELETE_transaction_persisted [OF p]
  from h show "tables (fst (DELETE_transaction e req i w)) ''audit_logs'' =
      tables w ''audit_logs'' @ [logged ''CANCEL_TRANSACTION'' i a cur (cur ++ cancelled)]"
    by (simp add: l(4) inserted_def logged_def cancelled_def)
  from p(3) have f: "filter (matches i) (tables w ''escrow_transactions'') = [cur]"
    by (simp add: select_single_Data)
  have m: "cur \<in> set (tables w ''escrow_transactions'') \<and>
      cur ++ [''status'' \<mapsto> JStr ''cancelled'', ''updated_at'' \<mapsto> JStr (now e)] \<in>
        set (map (\<lambda>x. if matches i x
            then x ++ [''status'' \<mapsto> JStr ''cancelled'', ''updated_at'' \<mapsto> JStr (now e)] else x)
          (tables w ''escrow_transactions''))"
    by (rule updated_row_in_table [OF f])
  show "cur \<in> set (tables w ''escrow_transactions'')"
    using m by blast
  show "cur ++ cancelled \<in> set (tables (fst (DELETE_transaction e req i w)) ''escrow_transactions'')"
    unfolding l(3) cancelled_def using m by blast
  show "snd (DELETE_transaction e req i w) =
      Response 200 (JObj [''message'' \<mapsto> JStr ''Transaction cancelled successfully'',
                          ''transaction'' \<mapsto> JObj (cur ++ cancelled)])"
    unfolding cancelled_def by (rule l(1))
  show "calls (fst (DELETE_transaction e req i w)) =
      calls w @ [Select ''profiles'' ''role'' a, Select ''escrow_transactions'' ''*'' i,
        Update ''escrow_transactions'' i cancelled,
        Insert ''audit_logs'' (logged ''CANCEL_TRANSACTION'' i a cur (cur ++ cancelled))]"
    unfolding cancelled_def logged_def by (rule l(2))
next
  show "tables (fst (DELETE_transaction e req i w)) = tables w
      \<or> (\<exists>a cur. cancellation i a cur)"
    using DELETE_transaction_unchanged_or_persisted [of e req i w]
    unfolding cancellation_def read_def cancelled_def by blast
next
  assume h: "update_of_user i a u cur upd
        \<and> inserted (inline ''UPDATE_USER'' ''user'' i u cur (JObj (cur ++ stamped upd)))"
  then have p: "auth req = Admin a" "user req = Some u"
    "body req = Some upd" "snd (select_single e ''profiles'' ''*'' i w) = Data cur"
    "\<not> (u = i \<and> truthy (upd ''role'') \<and> upd ''role'' \<noteq> Some (JStr ''admin''))"
    "faults e (Update ''profiles'' i (upd(''updated_at'' \<mapsto> JStr (now e)))) = NoFault"
    by (simp_all add: update_of_user_def read_def stamped_def)
  note l = PUT_user_persisted [OF p]
  from h show "tables (fst (PUT_user e req i w)) ''audit_logs'' =
      tables w ''audit_logs'' @ [inline ''UPDATE_USER'' ''user'' i u cur (JObj (cur ++ stamped upd))]"
    by (simp add: l(4) inserted_def inline_def stamped_def)
  from p(4) have f: "filter (matches i) (tables w ''profiles'') = [cur]"
    by (simp add: select_single_Data)
  have m: "cur \<in> set (tables w ''profiles'') \<and>
      cur ++ upd(''updated_at'' \<mapsto> JStr (now e)) \<in>
        set (map (\<lambda>x. if matches i x then x ++ upd(''updated_at'' \<mapsto> JStr (now e)) else x)
          (tables w ''profiles''))"
    by (rule updated_row_in_table [OF f])
  show "cur \<in> set (tables w ''profiles'')"
    using m by blast
  show "cur ++ stamped upd \<in> set (tables (fst (PUT_user e req i w)) ''profiles'')"
    unfolding l(3) stamped_def using m by blast
  from h show "snd (PUT_user e req i w) = Response 200 (JObj (cur ++ stamped upd))"
    by (simp add: l(1) inserted_def inline_def stamped_def)
  show "calls (fst (PUT_user e req i w)) =
      calls w @ [Select ''profiles'' ''*'' i, Update ''profiles'' i (stamped upd),
        Insert ''audit_logs'' (inline ''UPDATE_USER'' ''user'' i u cur (JObj (cur ++ stamped upd)))]"
    by (simp add: l(2) inline_def stamped_def)
next
  show "tables (fst (PUT_user e req i w)) = tables w
      \<or> (\<exists>a u cur upd. update_of_user i a u cur upd)"
    using PUT_user_unchanged_or_persisted [of e req i w]
    unfolding update_of_user_def read_def stamped_def by blast
next
  assume h: "deactivation i a u cur
        \<and> inserted (inline ''DEACTIVATE_USER'' ''user'' i u cur (JObj (cur ++ inactive)))"
  then have p: "auth req = Admin a" "user req = Some u" "u \<noteq> i"
    "snd (select_single e ''profiles'' ''*'' i w) = Data cur"
    "faults e (Update ''profiles'' i
        [''status'' \<mapsto> JStr ''inactive'', ''updated_at'' \<mapsto> JStr (now e)]) = NoFault"
    by (simp_all add: deactivation_def read_def inactive_def)
  note l = DELETE_user_persisted [OF p]
  from h show "tables (fst (DELETE_user e req i w)) ''audit_logs'' =
      tables w ''audit_logs'' @ [inline ''DEACTIVATE_USER'' ''user'' i u cur (JObj (cur ++ inactive))]"
    by (simp add: l(4) inserted_def inline_def inactive_def)
  from p(4) have f: "filter (matches i) (tables w ''profiles'') = [cur]"
    by (simp add: select_single_Data)
  have m: "cur \<in> set (tables w ''profiles'') \<and>
      cur ++ [''status'' \<mapsto> JStr ''inactive'', ''updated_at'' \<mapsto> JStr (now e)] \<in>
        set (map (\<lambda>x. if matches i x
            then x ++ [''status'' \<mapsto> JStr ''inactive'', ''updated_at'' \<mapsto> JStr (now e)] else x)
          (tables w ''profiles''))"
    by (rule updated_row_in_table [OF f])
  show "cur \<in> set (tables w ''profiles'')"
    using m by blast
  show "cur ++ inactive \<in> set (tables (fst (DELETE_user e req i w)) ''profiles'')"
    unfolding l(3) inactive_def using m by blast
  from h show "snd (DELETE_user e req i w) =
      Response 200 (JObj [''message'' \<mapsto> JStr ''User deactivated successfully'',
                          ''user'' \<mapsto> JObj (cur ++ inactive)])"
    by (simp add: l(1) inserted_def inline_def inactive_def)
  show "calls (fst (DELETE_user e req i w)) =
      calls w @ [Select ''profiles'' ''*'' i, Update ''profiles'' i inactive,
        Insert ''audit_logs'' (inline ''DEACTIVATE_USER'' ''user'' i u cur (JObj (cur ++ inactive)))]"
    by (simp add: l(2) inline_def inactive_def)
next
  show "tables (fst (DELETE_user e req i w)) = tables w
      \<or> (\<exists>a u cur. deactivation i a u cur)"
    using DELETE_user_unchanged_or_persisted [of e req i w]
    unfolding deactivation_def read_def inactive_def by blast
next
  assume h: "update_of_row t i a u cur upd
        \<and> inserted (inline (''UPDATE_'' @ toUpperCase (unicode_upper e) t) t i u cur
              (JObj (cur ++ finalUpdateData e upd)))"
  then have p: "auth req = Admin a" "t \<in> set allowedTables" "user req = Some u"
    "body req = Some upd" "snd (select_single e t ''*'' i w) = Data cur"
    "faults e (Update t i (finalUpdateData e upd)) = NoFault"
    by (simp_all add: update_of_row_def read_def)
  note l = PUT_data_persisted [OF p]
  from h show "tables (fst (PUT_data e req t i w)) =
      (updated t i upd)(''audit_logs'' := updated t i upd ''audit_logs'' @
         [inline (''UPDATE_'' @ toUpperCase (unicode_upper e) t) t i u cur
            (JObj (cur ++ finalUpdateData e upd))])"
    by (simp add: l(3) inserted_def inline_def updated_def)
  from p(5) have f: "filter (matches i) (tables w t) = [cur]"
    by (simp add: select_single_Data)
  have m: "cur \<in> set (tables w t) \<and>
      cur ++ finalUpdateData e upd \<in>
        set (map (\<lambda>x. if matches i x then x ++ finalUpdateData e upd else x) (tables w t))"
    by (rule updated_row_in_table [OF f])
  show "cur \<in> set (tables w t)"
    using m by blast
  show "cur ++ finalUpdateData e upd \<in> set (updated t i upd t)"
    unfolding updated_def using m by simp
  from h show "snd (PUT_data e req t i w) = Response 200 (JObj (cur ++ finalUpdateData e upd))"
    by (simp add: l(1) inserted_def inline_def)
  show "calls (fst (PUT_data e req t i w)) =
      calls w @ [Select t ''*'' i, Update t i (finalUpdateData e upd),
        Insert ''audit_logs'' (inline (''UPDATE_'' @ toUpperCase (unicode_upper e) t) t i u cur
          (JObj (cur ++ finalUpdateData e upd)))]"
    unfolding inline_def by (rule l(2))
next
  show "tables (fst (PUT_data e req t i w)) = tables w
      \<or> (\<exists>a u cur upd. update_of_row t i a u cur upd)"
    using PUT_data_unchanged_or_persisted [of e req t i w]
    unfolding update_of_row_def read_def by blast
next
  assume h: "deletion t i a u cur
        \<and> inserted (inline (''DELETE_'' @ toUpperCase (unicode_upper e) t) t i u cur JNull)"
  then have p: "auth req = Admin a" "t \<in> set allowedTables" "user req = Some u"
    "snd (select_single e t ''*'' i w) = Data cur" "faults e (Delete t i) = NoFault"
    by (simp_all add: deletion_def read_def)
  note l = DELETE_data_persisted [OF p]
  from h show "tables (fst (DELETE_data e req t i w)) =
      (deleted t i)(''audit_logs'' := deleted t i ''audit_logs'' @
         [inline (''DELETE_'' @ toUpperCase (unicode_upper e) t) t i u cur JNull])"
    by (simp add: l(3) inserted_def inline_def deleted_def)
  from p(4) have f: "filter (matches i) (tables w t) = [cur]"
    by (simp add: select_single_Data)
  have "cur \<in> set (filter (matches i) (tables w t))"
    using f by simp
  then show "cur \<in> set (tables w t)"
    by simp
  show "filter (matches i) (deleted t i t) = []"
    unfolding deleted_def by (simp add: deleted_row_not_in_table)
  from h show "snd (DELETE_data e req t i w) =
      Response 200 (JObj [''message'' \<mapsto> JStr ''Row deleted successfully''])"
    by (simp add: l(1) inserted_def inline_def)
  show "calls (fst (DELETE_data e req t i w)) =
      calls w @ [Select t ''*'' i, Delete t i,
        Insert ''audit_logs'' (inline (''DELETE_'' @ toUpperCase (unicode_upper e) t) t i u cur
          JNull)]"
    unfolding inline_def by (rule l(2))
next
  show "tables (fst (DELETE_data e req t i w)) = tables w
      \<or> (\<exists>a u cur. deletion t i a u cur)"
    using DELETE_data_unchanged_or_persisted [of e req t i w]
    unfolding deletion_def read_def by blast
qed

theorem audit_row_of_persisted_mutation_witness:
  "tables (fst (PUT_transaction example_env (example_request ''u1'' (Some [''amount'' \<mapsto> JNum 5]))
       ''t2'' example_world)) ''audit_logs'' =
     tables example_world ''audit_logs'' @
       [audit_row ''UPDATE_TRANSACTION'' ''transaction'' (JStr ''t2'')
          (JObj (transaction_row ''t2'' ''pending''))
          (JObj (transaction_row ''t2'' ''pending'' ++
             [''amount'' \<mapsto> JNum 5, ''updated_at'' \<mapsto> JStr (now example_env)]))
          (JStr ''u1'')
          (jstr_or_null (ip_or_null (example_request ''u1'' (Some [''amount'' \<mapsto> JNum 5]))))
          (jstr_or_null (agent_or_null (example_request ''u1'' (Some [''amount'' \<mapsto> JNum 5]))))]
   \<and> tables (fst (DELETE_user example_env (example_request ''u1'' None) ''u3'' example_world))
       ''audit_logs'' =
     tables example_world ''audit_logs'' @
       [audit_row ''DEACTIVATE_USER'' ''user'' (JStr ''u3'')
          (JObj (profile_row ''u3'' ''user''))
          (JObj (profile_row ''u3'' ''user'' ++
             [''status'' \<mapsto> JStr ''inactive'', ''updated_at'' \<mapsto> JStr (now example_env)]))
          (JStr ''u1'')
          (jstr_or_null (ip_or_unknown (example_request ''u1'' None)))
          (jstr_or_null (agent_or_unknown (example_request ''u1'' None)))]
   \<and> snd (DELETE_data example_env (example_request ''u1'' None) ''escrow_transactions'' ''t1''
       example_world) =
     Response 200 (JObj [''message'' \<mapsto> JStr ''Row deleted successfully''])"
proof -
  have a: "(auth (example_request ''u1'' (Some [''amount'' \<mapsto> JNum 5])) = Admin ''u1''
      \<and> snd (requireAdminPermission example_env ''u1'' EDIT_TRANSACTIONS example_world)
      \<and> body (example_request ''u1'' (Some [''amount'' \<mapsto> JNum 5])) = Some [''amount'' \<mapsto> JNum 5]
      \<and> snd (select_single example_env ''escrow_transactions'' ''*'' ''t2'' example_world) =
          Data (transaction_row ''t2'' ''pending'')
      \<and> faults example_env (Update ''escrow_transactions'' ''t2''
            [''amount'' \<mapsto> JNum 5, ''updated_at'' \<mapsto> JStr (now example_env)]) = NoFault)
    \<and> faults example_env (Insert ''audit_logs''
        (audit_row ''UPDATE_TRANSACTION'' ''transaction'' (JStr ''t2'')
          (JObj (transaction_row ''t2'' ''pending''))
          (JObj (transaction_row ''t2'' ''pending'' ++
             [''amount'' \<mapsto> JNum 5, ''updated_at'' \<mapsto> JStr (now example_env)]))
          (JStr ''u1'')
          (jstr_or_null (ip_or_null (example_request ''u1'' (Some [''amount'' \<mapsto> JNum 5]))))
          (jstr_or_null (agent_or_null (example_request ''u1'' (Some [''amount'' \<mapsto> JNum 5]))))))
      = NoFault"
    by (simp add: run_defs)
  have b: "(auth (example_request ''u1'' None) = Admin ''u1''
      \<and> user (example_request ''u1'' None) = Some ''u1'' \<and> ''u1'' \<noteq> ''u3''
      \<and> snd (select_single example_env ''profiles'' ''*'' ''u3'' example_world) =
          Data (profile_row ''u3'' ''user'')
      \<and> faults example_env (Update ''profiles'' ''u3''
            [''status'' \<mapsto> JStr ''inactive'', ''updated_at'' \<mapsto> JStr (now example_env)]) = NoFault)
    \<and> faults example_env (Insert ''audit_logs''
        (audit_row ''DEACTIVATE_USER'' ''user'' (JStr ''u3'')
          (JObj (profile_row ''u3'' ''user''))
          (JObj (profile_row ''u3'' ''user'' ++
             [''status'' \<mapsto> JStr ''inactive'', ''updated_at'' \<mapsto> JStr (now example_env)]))
          (JStr ''u1'')
          (jstr_or_null (ip_or_unknown (example_request ''u1'' None)))
          (jstr_or_null (agent_or_unknown (example_request ''u1'' None))))) = NoFault"
    by (simp add: run_defs)
  have c: "(auth (example_request ''u1'' None) = Admin ''u1''
      \<and> ''escrow_transactions'' \<in> set allowedTables
      \<and> user (example_request ''u1'' None) = Some ''u1''
      \<and> snd (select_single example_env ''escrow_transactions'' ''*'' ''t1'' example_world) =
          Data (transaction_row ''t1'' ''completed'')
      \<and> faults example_env (Delete ''escrow_transactions'' ''t1'') = NoFault)
    \<and> faults example_env (Insert ''audit_logs''
        (audit_row (''DELETE_'' @ toUpperCase (unicode_upper example_env) ''escrow_transactions'')
          ''escrow_transactions'' (JStr ''t1'')
          (JObj (transaction_row ''t1'' ''completed'')) JNull (JStr ''u1'')
          (jstr_or_null (ip_or_unknown (example_request ''u1'' None)))
          (jstr_or_null (agent_or_unknown (example_request ''u1'' None))))) = NoFault"
    by (simp add: run_defs allowedTables_def)
  note t2 = audit_row_of_persisted_mutation [where e = example_env
      and req = "example_request ''u1'' (Some [''amount'' \<mapsto> JNum 5])" and w = example_world
      and i = "''t2''" and a = "''u1''" and cur = "transaction_row ''t2'' ''pending''"
      and upd = "[''amount'' \<mapsto> JNum 5]"]
  note u3 = audit_row_of_persisted_mutation [where e = example_env
      and req = "example_request ''u1'' None" and w = example_world
      and i = "''u3''" and a = "''u1''" and u = "''u1''" and cur = "profile_row ''u3'' ''user''"]
  note t1 = audit_row_of_persisted_mutation [where e = example_env
      and req = "example_request ''u1'' None" and w = example_world
      and t = "''escrow_transactions''" and i = "''t1''" and a = "''u1''" and u = "''u1''"
      and cur = "transaction_row ''t1'' ''completed''"]
  note first = t2 [THEN conjunct1, THEN mp, OF a, THEN conjunct1]
  note second = u3 [THEN conjunct2, THEN conjunct2, THEN conjunct2, THEN conjunct2, THEN conjunct2,
      THEN conjunct2, THEN conjunct1, THEN mp, OF b, THEN conjunct1]
  note third = t1 [THEN conjunct2, THEN conjunct2, THEN conjunct2, THEN conjunct2, THEN conjunct2,
      THEN conjunct2, THEN conjunct2, THEN conjunct2, THEN conjunct2, THEN conjunct2,
      THEN conjunct1, THEN mp, OF c, THEN conjunct2, THEN conjunct2, THEN conjunct2, THEN conjunct1]
  show ?thesis
    by (rule conjI [OF first conjI [OF second third]])
qed

text \<open>
  C3, where it fails. The admin \<open>u1\<close> updates the pending transaction \<open>t2\<close> while the
  insert into \<open>audit_logs\<close> throws: the update is stored and answered with 200, and
  \<open>audit_logs\<close> holds no row for it. And the admin updates a row of \<open>user_profiles\<close>
  through the user_profiles route, with no failure at all: the update is stored and
  answered with 200, the update is the only storage call, and \<open>audit_logs\<close> holds no row
  for it.
\<close>

theorem persisted_mutation_without_audit_row:
  "snd (PUT_transaction audit_throws_env (example_request ''u1'' (Some [''amount'' \<mapsto> JNum 5]))
         ''t2'' example_world) =
     Response 200 (JObj (transaction_row ''t2'' ''pending'' ++
        [''amount'' \<mapsto> JNum 5, ''updated_at'' \<mapsto> JStr ''2024-01-01T00:00:00.000Z'']))
   \<and> map (\<lambda>r. (r ''id'', r ''amount''))
       (tables (fst (PUT_transaction audit_throws_env
          (example_request ''u1'' (Some [''amount'' \<mapsto> JNum 5])) ''t2'' example_world))
        ''escrow_transactions'') =
     [(Some (JStr ''t1''), Some (JNum 100)), (Some (JStr ''t2''), Some (JNum 5))]
   \<and> tables (fst (PUT_transaction audit_throws_env
          (example_request ''u1'' (Some [''amount'' \<mapsto> JNum 5])) ''t2'' example_world))
        ''audit_logs'' = []
   \<and> snd (PUT_user_profile example_env (example_request ''u1'' (Some [''role'' \<mapsto> JStr ''admin'']))
         ''u3'' (example_world\<lparr>tables := (\<lambda>t. if t = ''user_profiles''
            then [profile_row ''u3'' ''user''] else [])\<rparr>)) =
     Response 200 (JArr [JObj (profile_row ''u3'' ''user'' ++ [''role'' \<mapsto> JStr ''admin''])])
   \<and> calls (fst (PUT_user_profile example_env
          (example_request ''u1'' (Some [''role'' \<mapsto> JStr ''admin''])) ''u3''
          (example_world\<lparr>tables := (\<lambda>t. if t = ''user_profiles''
            then [profile_row ''u3'' ''user''] else [])\<rparr>))) =
     [Update ''user_profiles'' ''u3'' [''role'' \<mapsto> JStr ''admin'']]
   \<and> tables (fst (PUT_user_profile example_env
          (example_request ''u1'' (Some [''role'' \<mapsto> JStr ''admin''])) ''u3''
          (example_world\<lparr>tables := (\<lambda>t. if t = ''user_profiles''
            then [profile_row ''u3'' ''user''] else [])\<rparr>))) ''audit_logs'' = []"
  by (simp add: run_defs)

section \<open>A failing audit append\<close>

text \<open>
  What the handlers do once the update has persisted, for every outcome of the insert into
  \<open>audit_logs\<close>. In the update and the cancellation of a transaction, which append
  through \<open>logAdminAction\<close>, the stored update stays, the answer is the 200 response with
  the row after the update, \<open>audit_logs\<close> gains the row exactly when the insert does not
  fail, and the console gains a line exactly when the insert throws. \<open>logAdminAction\<close>
  itself touches no table but \<open>audit_logs\<close>. In the update of a user, which inserts the
  audit row itself, the stored update stays too, and the answer is the row after the update
  unless the insert throws.
\<close>

lemma audit_failure_keeps_the_update:
  fixes e :: env and req :: request and w :: world and tid :: string and a :: string
    and cur :: row
  defines "stamped \<equiv> \<lambda>upd. upd(''updated_at'' \<mapsto> JStr (now e))"
  defines "cancelled \<equiv> [''status'' \<mapsto> JStr ''cancelled'', ''updated_at'' \<mapsto> JStr (now e)]"
  defines "entryT \<equiv> \<lambda>act new. audit_row act ''transaction'' (JStr tid)
      (JObj cur) (JObj new) (JStr a)
      (jstr_or_null (ip_or_null req)) (jstr_or_null (agent_or_null req))"
  shows
    "(auth req = Admin a \<and> snd (requireAdminPermission e a EDIT_TRANSACTIONS w)
        \<and> body req = Some upd
        \<and> snd (select_single e ''escrow_transactions'' ''*'' tid w) = Data cur
        \<and> faults e (Update ''escrow_transactions'' tid (stamped upd)) = NoFault \<longrightarrow>
        snd (PUT_transaction e req tid w) = Response 200 (JObj (cur ++ stamped upd))
        \<and> tables (fst (PUT_transaction e req tid w)) ''escrow_transactions'' =
            map (\<lambda>x. if matches tid x then x ++ stamped upd else x) (tables w ''escrow_transactions'')
        \<and> tables (fst (PUT_transaction e req tid w)) ''audit_logs'' =
            (if faults e (Insert ''audit_logs'' (entryT ''UPDATE_TRANSACTION'' (cur ++ stamped upd))) = NoFault
             then tables w ''audit_logs'' @ [entryT ''UPDATE_TRANSACTION'' (cur ++ stamped upd)]
             else tables w ''audit_logs'')
        \<and> console (fst (PUT_transaction e req tid w)) =
            (if faults e (Insert ''audit_logs'' (entryT ''UPDATE_TRANSACTION'' (cur ++ stamped upd))) = Throws
             then console w @ [Err ''Error logging admin action:''] else console w))
     \<and> (auth req = Admin a \<and> snd (requireAdminPermission e a CANCEL_TRANSACTIONS w)
        \<and> snd (select_single e ''escrow_transactions'' ''*'' tid w) = Data cur
        \<and> cur ''status'' \<noteq> Some (JStr ''completed'')
        \<and> faults e (Update ''escrow_transactions'' tid cancelled) = NoFault \<longrightarrow>
        snd (DELETE_transaction e req tid w) =
          Response 200 (JObj [''message'' \<mapsto> JStr ''Transaction cancelled successfully'',
                              ''transaction'' \<mapsto> JObj (cur ++ cancelled)])
        \<and> tables (fst (DELETE_transaction e req tid w)) ''escrow_transactions'' =
            map (\<lambda>x. if matches tid x then x ++ cancelled else x) (tables w ''escrow_transactions'')
        \<and> tables (fst (DELETE_transaction e req tid w)) ''audit_logs'' =
            (if faults e (Insert ''audit_logs'' (entryT ''CANCEL_TRANSACTION'' (cur ++ cancelled))) = NoFault
             then tables w ''audit_logs'' @ [entryT ''CANCEL_TRANSACTION'' (cur ++ cancelled)]
             else tables w ''audit_logs'')
        \<and> console (fst (DELETE_transaction e req tid w)) =
            (if faults e (Insert ''audit_logs'' (entryT ''CANCEL_TRANSACTION'' (cur ++ cancelled))) = Throws
             then console w @ [Err ''Error logging admin action:''] else console w))
     \<and> (\<forall>t. t \<noteq> ''audit_logs'' \<longrightarrow>
          tables (logAdminAction e a act et ei ov nv ip ua w) t = tables w t)
     \<and> (auth req = Admin adm \<and> user req = Some u \<and> body req = Some upd
        \<and> snd (select_single e ''profiles'' ''*'' uid w) = Data ucur
        \<and> \<not> (u = uid \<and> truthy (upd ''role'') \<and> upd ''role'' \<noteq> Some (JStr ''admin''))
        \<and> faults e (Update ''profiles'' uid (stamped upd)) = NoFault \<longrightarrow>
        tables (fst (PUT_user e req uid w)) ''profiles'' =
            map (\<lambda>x. if matches uid x then x ++ stamped upd else x) (tables w ''profiles'')
        \<and> snd (PUT_user e req uid w) =
            (if faults e (Insert ''audit_logs'' (audit_row ''UPDATE_USER'' ''user'' (JStr uid)
                  (JObj ucur) (JObj (ucur ++ stamped upd)) (JStr u)
                  (jstr_or_null (ip_or_unknown req)) (jstr_or_null (agent_or_unknown req)))) = Throws
             then json_error 400 ''Invalid request data''
             else Response 200 (JObj (ucur ++ stamped upd))))"
proof (intro conjI impI allI)
  assume h: "auth req = Admin a \<and> snd (requireAdminPermission e a EDIT_TRANSACTIONS w)
        \<and> body req = Some upd
        \<and> snd (select_single e ''escrow_transactions'' ''*'' tid w) = Data cur
        \<and> faults e (Update ''escrow_transactions'' tid (stamped upd)) = NoFault"
  then have p: "auth req = Admin a" "snd (requireAdminPermission e a EDIT_TRANSACTIONS w)"
    "body req = Some upd" "snd (select_single e ''escrow_transactions'' ''*'' tid w) = Data cur"
    "faults e (Update ''escrow_transactions'' tid (upd(''updated_at'' \<mapsto> JStr (now e)))) = NoFault"
    by (simp_all add: stamped_def)
  note l = PUT_transaction_persisted [OF p]
  show "snd (PUT_transaction e req tid w) = Response 200 (JObj (cur ++ stamped upd))"
    unfolding stamped_def by (rule l(1))
  show "tables (fst (PUT_transaction e req tid w)) ''escrow_transactions'' =
      map (\<lambda>x. if matches tid x then x ++ stamped upd else x) (tables w ''escrow_transactions'')"
    unfolding stamped_def by (rule l(3))
  show "tables (fst (PUT_transaction e req tid w)) ''audit_logs'' =
      (if faults e (Insert ''audit_logs'' (entryT ''UPDATE_TRANSACTION'' (cur ++ stamped upd))) = NoFault
       then tables w ''audit_logs'' @ [entryT ''UPDATE_TRANSACTION'' (cur ++ stamped upd)]
       else tables w ''audit_logs'')"
    unfolding stamped_def entryT_def by (rule l(4))
  show "console (fst (PUT_transaction e req tid w)) =
      (if faults e (Insert ''audit_logs'' (entryT ''UPDATE_TRANSACTION'' (cur ++ stamped upd))) = Throws
       then console w @ [Err ''Error logging admin action:''] else console w)"
    unfolding stamped_def entryT_def by (rule l(5))
next
  assume h: "auth req = Admin a \<and> snd (requireAdminPermission e a CANCEL_TRANSACTIONS w)
        \<and> snd (select_single e ''escrow_transactions'' ''*'' tid w) = Data cur
        \<and> cur ''status'' \<noteq> Some (JStr ''completed'')
        \<and> faults e (Update ''escrow_transactions'' tid cancelled) = NoFault"
  then have p: "auth req = Admin a" "snd (requireAdminPermission e a CANCEL_TRANSACTIONS w)"
    "snd (select_single e ''escrow_transactions'' ''*'' tid w) = Data cur"
    "cur ''status'' \<noteq> Some (JStr ''completed'')"
    "faults e (Update ''escrow_transactions'' tid
        [''status'' \<mapsto> JStr ''cancelled'', ''updated_at'' \<mapsto> JStr (now e)]) = NoFault"
    by (simp_all add: cancelled_def)
  note l = DELETE_transaction_persisted [OF p]
  show "snd (DELETE_transaction e req tid w) =
          Response 200 (JObj [''message'' \<mapsto> JStr ''Transaction cancelled successfully'',
                              ''transaction'' \<mapsto> JObj (cur ++ cancelled)])"
    unfolding cancelled_def by (rule l(1))
  show "tables (fst (DELETE_transaction e req tid w)) ''escrow_transactions'' =
      map (\<lambda>x. if matches tid x then x ++ cancelled else x) (tables w ''escrow_transactions'')"
    unfolding cancelled_def by (rule l(3))
  show "tables (fst (DELETE_transaction e req tid w)) ''audit_logs'' =
      (if faults e (Insert ''audit_logs'' (entryT ''CANCEL_TRANSACTION'' (cur ++ cancelled))) = NoFault
       then tables w ''audit_logs'' @ [entryT ''CANCEL_TRANSACTION'' (cur ++ cancelled)]
       else tables w ''audit_logs'')"
    unfolding cancelled_def entryT_def by (rule l(4))
  show "console (fst (DELETE_transaction e req tid w)) =
      (if faults e (Insert ''audit_logs'' (entryT ''CANCEL_TRANSACTION'' (cur ++ cancelled))) = Throws
       then console w @ [Err ''Error logging admin action:''] else console w)"
    unfolding cancelled_def entryT_def by (rule l(5))
next
  fix t :: string
  assume "t \<noteq> ''audit_logs''"
  then show "tables (logAdminAction e a act et ei ov nv ip ua w) t = tables w t"
    by (simp add: logAdminAction_world)
next
  assume h: "auth req = Admin adm \<and> user req = Some u \<and> body req = Some upd
        \<and> snd (select_single e ''profiles'' ''*'' uid w) = Data ucur
        \<and> \<not> (u = uid \<and> truthy (upd ''role'') \<and> upd ''role'' \<noteq> Some (JStr ''admin''))
        \<and> faults e (Update ''profiles'' uid (stamped upd)) = NoFault"
  then have p: "auth req = Admin adm" "user req = Some u"
    "body req = Some upd" "snd (select_single e ''profiles'' ''*'' uid w) = Data ucur"
    "\<not> (u = uid \<and> truthy (upd ''role'') \<and> upd ''role'' \<noteq> Some (JStr ''admin''))"
    "faults e (Update ''profiles'' uid (upd(''updated_at'' \<mapsto> JStr (now e)))) = NoFault"
    by (simp_all add: stamped_def)
  note l = PUT_user_persisted [OF p]
  show "tables (fst (PUT_user e req uid w)) ''profiles'' =
      map (\<lambda>x. if matches uid x then x ++ stamped upd else x) (tables w ''profiles'')"
    unfolding stamped_def by (rule l(3))
  show "snd (PUT_user e req uid w) =
      (if faults e (Insert ''audit_logs'' (audit_row ''UPDATE_USER'' ''user'' (JStr uid)
            (JObj ucur) (JObj (ucur ++ stamped upd)) (JStr u)
            (jstr_or_null (ip_or_unknown req)) (jstr_or_null (agent_or_unknown req)))) = Throws
       then json_error 400 ''Invalid request data''
       else Response 200 (JObj (ucur ++ stamped upd)))"
    unfolding stamped_def by (rule l(1))
qed

text \<open>
  C8, where the code misses it. The admin \<open>u1\<close> updates the pending transaction
  \<open>t2\<close> while the insert into \<open>audit_logs\<close> answers an error instead of throwing: the
  update is stored and answered with 200, no audit row is written, and nothing is written to
  the console, so the failure of the append is reported nowhere, while an insert that throws
  is written to the console. And the admin updates the
  user \<open>u3\<close> while the insert throws: the update is stored, and the answer is the error
  400 of the handler's \<open>catch\<close>, where the transaction handlers answer 200.
\<close>

theorem audit_failure_unreported_or_aborting:
  "snd (PUT_transaction audit_error_env (example_request ''u1'' (Some [''amount'' \<mapsto> JNum 5]))
         ''t2'' example_world) =
     Response 200 (JObj (transaction_row ''t2'' ''pending'' ++
        [''amount'' \<mapsto> JNum 5, ''updated_at'' \<mapsto> JStr ''2024-01-01T00:00:00.000Z'']))
   \<and> tables (fst (PUT_transaction audit_error_env
          (example_request ''u1'' (Some [''amount'' \<mapsto> JNum 5])) ''t2'' example_world))
        ''audit_logs'' = []
   \<and> console (fst (PUT_transaction audit_error_env
          (example_request ''u1'' (Some [''amount'' \<mapsto> JNum 5])) ''t2'' example_world)) = []
   \<and> console (fst (PUT_transaction audit_throws_env
          (example_request ''u1'' (Some [''amount'' \<mapsto> JNum 5])) ''t2'' example_world)) =
     [Err ''Error logging admin action:'']
   \<and> snd (PUT_user audit_throws_env
          (example_request ''u1'' (Some [''status'' \<mapsto> JStr ''suspended''])) ''u3'' example_world) =
     json_error 400 ''Invalid request data''
   \<and> map (\<lambda>r. (r ''id'', r ''status''))
       (tables (fst (PUT_user audit_throws_env
          (example_request ''u1'' (Some [''status'' \<mapsto> JStr ''suspended''])) ''u3'' example_world))
        ''profiles'') =
     [(Some (JStr ''u1''), Some (JStr ''active'')), (Some (JStr ''u2''), Some (JStr ''active'')),
      (Some (JStr ''u3''), Some (JStr ''suspended''))]"
  by (simp add: run_defs)

section \<open>User accounts\<close>

lemma self_guard_where_it_applies:
  "(auth req = Admin adm \<and> user req = Some uid \<longrightarrow>
      DELETE_user e req uid w = (w, json_error 400 ''Cannot deactivate your own account''))
   \<and> (auth req = Admin adm \<and> user req = Some uid \<and> body req = Some upd
        \<and> snd (select_single e ''profiles'' ''*'' uid w) = Data cur
        \<and> truthy (upd ''role'') \<and> upd ''role'' \<noteq> Some (JStr ''admin'') \<longrightarrow>
      snd (PUT_user e req uid w) = json_error 400 ''Cannot change your own admin role''
      \<and> tables (fst (PUT_user e req uid w)) = tables w)"
proof (intro conjI impI)
  assume "auth req = Admin adm \<and> user req = Some uid"
  then show "DELETE_user e req uid w = (w, json_error 400 ''Cannot deactivate your own account'')"
    by (simp add: DELETE_user_def)
next
  assume h: "auth req = Admin adm \<and> user req = Some uid \<and> body req = Some upd
        \<and> snd (select_single e ''profiles'' ''*'' uid w) = Data cur
        \<and> truthy (upd ''role'') \<and> upd ''role'' \<noteq> Some (JStr ''admin'')"
  then have s1: "select_single e ''profiles'' ''*'' uid w =
      (record_call (Select ''profiles'' ''*'' uid) w, Data cur)"
    using fst_select_single [of e "''profiles''" "''*''" uid w]
    by (cases "select_single e ''profiles'' ''*'' uid w") simp
  with h show "snd (PUT_user e req uid w) = json_error 400 ''Cannot change your own admin role''"
    "tables (fst (PUT_user e req uid w)) = tables w"
    by (simp_all add: PUT_user_def world_fields)
qed

text \<open>
  C2, where the code misses it. The admin \<open>u1\<close> sends an update of the own account. With
  the payload \<open>{status: "inactive"}\<close> the handler answers 200 and stores the status
  \<open>inactive\<close> on the actor's own row: the check of the update handler looks at the role
  only. With the payload \<open>{role: ""}\<close> the empty string is falsy, the check is passed
  over, and the actor's own role is stored as the empty string.
\<close>

theorem self_update_is_stored:
  "snd (PUT_user example_env (example_request ''u1'' (Some [''status'' \<mapsto> JStr ''inactive'']))
         ''u1'' example_world) =
     Response 200 (JObj (profile_row ''u1'' ''admin'' ++
        [''status'' \<mapsto> JStr ''inactive'', ''updated_at'' \<mapsto> JStr ''2024-01-01T00:00:00.000Z'']))
   \<and> map (\<lambda>r. (r ''id'', r ''role'', r ''status''))
       (tables (fst (PUT_user example_env
          (example_request ''u1'' (Some [''status'' \<mapsto> JStr ''inactive''])) ''u1'' example_world))
        ''profiles'') =
     [(Some (JStr ''u1''), Some (JStr ''admin''), Some (JStr ''inactive'')),
      (Some (JStr ''u2''), Some (JStr ''moderator''), Some (JStr ''active'')),
      (Some (JStr ''u3''), Some (JStr ''user''), Some (JStr ''active''))]
   \<and> snd (PUT_user example_env (example_request ''u1'' (Some [''role'' \<mapsto> JStr '''']))
         ''u1'' example_world) =
     Response 200 (JObj (profile_row ''u1'' ''admin'' ++
        [''role'' \<mapsto> JStr '''', ''updated_at'' \<mapsto> JStr ''2024-01-01T00:00:00.000Z'']))
   \<and> map (\<lambda>r. (r ''id'', r ''role'', r ''status''))
       (tables (fst (PUT_user example_env
          (example_request ''u1'' (Some [''role'' \<mapsto> JStr ''''])) ''u1'' example_world))
        ''profiles'') =
     [(Some (JStr ''u1''), Some (JStr ''''), Some (JStr ''active'')),
      (Some (JStr ''u2''), Some (JStr ''moderator''), Some (JStr ''active'')),
      (Some (JStr ''u3''), Some (JStr ''user''), Some (JStr ''active''))]"
  by (simp add: run_defs)

section \<open>System fields of an update\<close>

lemma finalUpdateData_fields:
  "finalUpdateData e updateData ''id'' = None
   \<and> finalUpdateData e updateData ''created_at'' = None
   \<and> finalUpdateData e updateData ''updated_at'' = Some (JStr (now e))
   \<and> (\<forall>k. k \<notin> {''id'', ''created_at'', ''updated_at''} \<longrightarrow>
        finalUpdateData e updateData k = updateData k)"
  by (simp add: finalUpdateData_def allowedUpdates_def restrict_map_def)

lemma PUT_data_strips_system_fields:
  "map (\<lambda>r. (r ''id'', r ''created_at'', r ''amount''))
       (tables (fst (PUT_data example_env
          (example_request ''u1'' (Some [''id'' \<mapsto> JStr ''t9'', ''created_at'' \<mapsto> JStr ''1999'',
             ''amount'' \<mapsto> JNum 5]))
          ''escrow_transactions'' ''t2'' example_world))
        ''escrow_transactions'') =
     [(Some (JStr ''t1''), None, Some (JNum 100)), (Some (JStr ''t2''), None, Some (JNum 5))]"
  by (simp add: run_defs allowedTables_def finalUpdateData_def allowedUpdates_def restrict_map_def
      map_add_def)

text \<open>
  C4, where the code misses it. The admin \<open>u1\<close> sends the payload
  \<open>{id: "t9", created_at: "1999", amount: 5}\<close> to the update handler of the transaction
  \<open>t2\<close>. The update issued carries \<open>id\<close> and \<open>created_at\<close> as sent, and afterwards
  the row has the identifier \<open>t9\<close> and the creation time \<open>1999\<close>.
\<close>

theorem transaction_update_keeps_system_fields:
  "calls (fst (PUT_transaction example_env
          (example_request ''u1'' (Some [''id'' \<mapsto> JStr ''t9'', ''created_at'' \<mapsto> JStr ''1999'',
             ''amount'' \<mapsto> JNum 5]))
          ''t2'' example_world)) =
     [Select ''profiles'' ''role'' ''u1'', Select ''escrow_transactions'' ''*'' ''t2'',
      Update ''escrow_transactions'' ''t2''
        [''id'' \<mapsto> JStr ''t9'', ''created_at'' \<mapsto> JStr ''1999'', ''amount'' \<mapsto> JNum 5,
         ''updated_at'' \<mapsto> JStr ''2024-01-01T00:00:00.000Z''],
      Insert ''audit_logs'' (audit_row ''UPDATE_TRANSACTION'' ''transaction'' (JStr ''t2'')
        (JObj (transaction_row ''t2'' ''pending''))
        (JObj (transaction_row ''t2'' ''pending'' ++
           [''id'' \<mapsto> JStr ''t9'', ''created_at'' \<mapsto> JStr ''1999'', ''amount'' \<mapsto> JNum 5,
            ''updated_at'' \<mapsto> JStr ''2024-01-01T00:00:00.000Z'']))
        (JStr ''u1'') JNull JNull)]
   \<and> map (\<lambda>r. (r ''id'', r ''created_at'', r ''amount''))
       (tables (fst (PUT_transaction example_env
          (example_request ''u1'' (Some [''id'' \<mapsto> JStr ''t9'', ''created_at'' \<mapsto> JStr ''1999'',
             ''amount'' \<mapsto> JNum 5]))
          ''t2'' example_world))
        ''escrow_transactions'') =
     [(Some (JStr ''t1''), None, Some (JNum 100)),
      (Some (JStr ''t9''), Some (JStr ''1999''), Some (JNum 5))]"
  by (simp add: run_defs audit_row_def jstr_or_null_def ip_or_null_def agent_or_null_def)

section \<open>Rows of user accounts\<close>







end
